theory Spec2Isabelle
  imports Complex_Main "HOL-Library.Word" "HOL-Library.Log_Nat"
begin

unbundle bit_operations_syntax

section \<open>Laser-tag robot controller (FinalCode/pi.py)\<close>

text \<open>
  A shallow embedding of the control core of \<^verbatim>\<open>FinalCode/pi.py\<close>. Python integers are
  \<open>int\<close>; Python floats and the wall clock \<^verbatim>\<open>time.time()\<close> are \<open>real\<close> numbers, and
  every function that reads the clock takes the reading as its argument \<open>now\<close>. Float
  arithmetic is exact in the model, except where a result is truncated to an integer
  (the duty percentage of \<^verbatim>\<open>apply_motor\<close>): there the product is rounded to binary64
  first, as the interpreter does. The module's global variables are the fields of the record
  \<open>robot\<close>; each function that mutates them takes the record and returns the new one.
  Calls of \<^verbatim>\<open>print\<close> and \<^verbatim>\<open>time.sleep\<close> have no effect on the modelled state and are
  left out.
\<close>

subsection \<open>User configuration\<close>

datatype motor = A | B | C | D

text \<open>The dictionary \<^verbatim>\<open>MOTORS\<close>, one selector per key of its entries (BCM pin numbers).\<close>

fun EN :: "motor \<Rightarrow> nat" where
  "EN A = 18" | "EN B = 19" | "EN C = 5" | "EN D = 6"

fun IN1 :: "motor \<Rightarrow> nat" where
  "IN1 A = 23" | "IN1 B = 25" | "IN1 C = 22" | "IN1 D = 16"

fun IN2 :: "motor \<Rightarrow> nat" where
  "IN2 A = 24" | "IN2 B = 8" | "IN2 C = 26" | "IN2 D = 20"

text \<open>\<^verbatim>\<open>MOTORS.values()\<close> iterates in insertion order.\<close>

definition MOTORS :: "motor list" where
  "MOTORS = [A, B, C, D]"

definition IR_TX_GPIO :: nat where
  "IR_TX_GPIO = 17"

definition CARRIER_FREQ :: int where
  "CARRIER_FREQ = 38000"

definition CARRIER_PERIOD_US :: int where
  "CARRIER_PERIOD_US = \<lfloor>1000000 / real_of_int CARRIER_FREQ\<rfloor>"

definition BIT_0_BURST :: int where
  "BIT_0_BURST = 800"

definition BIT_1_BURST :: int where
  "BIT_1_BURST = 1600"

definition START_END_BURST :: int where
  "START_END_BURST = 2400"

definition TOLERANCE :: int where
  "TOLERANCE = 200"

fun DIR_OFFSET :: "motor \<Rightarrow> real" where
  "DIR_OFFSET A = 1" | "DIR_OFFSET B = 1" | "DIR_OFFSET C = 1" | "DIR_OFFSET D = 1"

definition STBY_PINS :: "nat list" where
  "STBY_PINS = [9, 11]"

definition MIN_DUTY_FLOOR :: int where
  "MIN_DUTY_FLOOR = 30"

definition PURE_DC_THRESHOLD :: int where
  "PURE_DC_THRESHOLD = 80"

definition COMMAND_TIMEOUT_S :: real where
  "COMMAND_TIMEOUT_S = 8 / 10"

definition POWER_SAVE_TIMEOUT_S :: real where
  "POWER_SAVE_TIMEOUT_S = 10"

definition HIT_DISABLE_TIME :: real where
  "HIT_DISABLE_TIME = 10"

subsection \<open>Global state\<close>

text \<open>
  The driver handle \<^verbatim>\<open>pi\<close> is modelled by what the program last asked of each pin:
  \<^verbatim>\<open>pi.write(pin, level)\<close> or \<^verbatim>\<open>pi.set_PWM_dutycycle(pin, duty)\<close>.
\<close>

datatype pin_cmd = Write int | PWM_dutycycle int

type_synonym gpio_state = "nat \<Rightarrow> pin_cmd"

text \<open>
  One call of \<^verbatim>\<open>send_ir_burst\<close>: the requested duration and the two loop-count bytes
  handed to \<^verbatim>\<open>pi.wave_chain\<close>.
\<close>

record tx_burst =
  burst_us :: int
  cycles_lo :: int
  cycles_hi :: int

text \<open>The dictionary \<^verbatim>\<open>state\<close>.\<close>

record drive_state =
  vx :: real
  vy :: real
  omega :: real
  speed :: real
  estop :: bool
  fire :: bool
  team_id :: int

text \<open>The dictionary \<^verbatim>\<open>laser_tag_state\<close>.\<close>

record laser_tag =
  is_hit :: bool
  hit_by_team :: int
  hit_time :: real
  time_remaining :: real
  is_self_hit :: bool

record robot =
  state :: drive_state
  laser_tag_state :: laser_tag
  last_cmd_time :: real
  last_input_time :: real
  in_standby :: bool
  gpio :: gpio_state
  ir_tx :: "tx_burst list"

definition clamp :: "real \<Rightarrow> real \<Rightarrow> real \<Rightarrow> real" where
  "clamp v lo hi = max lo (min hi v)"

subsection \<open>Motor control\<close>

definition stop_motor :: "gpio_state \<Rightarrow> motor \<Rightarrow> gpio_state" where
  "stop_motor g m = g(EN m := PWM_dutycycle 0, IN1 m := Write 0, IN2 m := Write 0)"

definition stop_all_motors :: "gpio_state \<Rightarrow> gpio_state" where
  "stop_all_motors g = foldl stop_motor g MOTORS"

definition enter_standby :: "gpio_state \<Rightarrow> gpio_state" where
  "enter_standby g = foldl (\<lambda>h s. h(s := Write 0)) (stop_all_motors g) STBY_PINS"

definition exit_standby :: "gpio_state \<Rightarrow> gpio_state" where
  "exit_standby g = foldl (\<lambda>h s. h(s := Write 1)) g STBY_PINS"

text \<open>
  The product of two Python floats is the exact product rounded to the nearest binary64
  value, ties to the even significand. \<open>double_exponent\<close> is the binary exponent of a
  non-negative magnitude (at least -1022, where the subnormal range begins) and
  \<open>double_ulp\<close> the spacing of the binary64 values at that exponent. Magnitudes above
  the largest binary64 value are not treated; in \<^verbatim>\<open>apply_motor\<close> the product is at most
  100.
\<close>

definition round_half_even :: "real \<Rightarrow> int" where
  "round_half_even q =
     (let f = \<lfloor>q\<rfloor>; r = q - real_of_int f
      in if r < 1 / 2 then f else if 1 / 2 < r then f + 1 else if even f then f else f + 1)"

definition double_exponent :: "real \<Rightarrow> int" where
  "double_exponent a = max (- 1022) (bitlen \<lfloor>a * 2 ^ 1074\<rfloor> - 1075)"

definition double_ulp :: "int \<Rightarrow> real" where
  "double_ulp e = (if 52 \<le> e then 2 ^ nat (e - 52) else 1 / 2 ^ nat (52 - e))"

definition round_double :: "real \<Rightarrow> real" where
  "round_double x =
     (let a = \<bar>x\<bar>; u = double_ulp (double_exponent a)
      in sgn x * real_of_int (round_half_even (a / u)) * u)"

definition float_mul :: "real \<Rightarrow> real \<Rightarrow> real" where
  "float_mul x y = round_double (x * y)"

definition apply_motor :: "motor \<Rightarrow> real \<Rightarrow> gpio_state \<Rightarrow> gpio_state" where
  "apply_motor name norm0 g =
     (let norm = clamp norm0 (- 1) 1 * DIR_OFFSET name in
      if \<bar>norm\<bar> < 1 / 1000 then
        g(EN name := PWM_dutycycle 0, IN1 name := Write 0, IN2 name := Write 0)
      else
        let forward = (norm > 0);
            g1 = g(IN1 name := Write (if forward then 1 else 0));
            g2 = g1(IN2 name := Write (if forward then 0 else 1));
            pct = \<lfloor>float_mul \<bar>norm\<bar> 100\<rfloor>
        in if pct \<ge> PURE_DC_THRESHOLD then g2(EN name := Write 1)
           else
             let pct' = max MIN_DUTY_FLOOR pct;
                 duty = pct' * 255 div 100
             in g2(EN name := PWM_dutycycle duty))"

text \<open>
  The four wheel values that \<^verbatim>\<open>drive_mecanum\<close> computes (in the order fl, fr, rl, rr)
  before it hands them to \<^verbatim>\<open>apply_motor\<close>.
\<close>

definition mecanum_wheels :: "real \<Rightarrow> real \<Rightarrow> real \<Rightarrow> real \<Rightarrow> real \<times> real \<times> real \<times> real" where
  "mecanum_wheels vx' vy' omega' max_speed =
     (let fl = vy' + vx' + omega';
          fr = - vy' + vx' - omega';
          rl = - vy' + vx' + omega';
          rr = vy' + vx' - omega';
          scale = max 1 (max \<bar>fl\<bar> (max \<bar>fr\<bar> (max \<bar>rl\<bar> \<bar>rr\<bar>)))
      in (fl / scale * max_speed, fr / scale * max_speed,
          rl / scale * max_speed, rr / scale * max_speed))"

definition drive_mecanum :: "real \<Rightarrow> real \<Rightarrow> real \<Rightarrow> real \<Rightarrow> gpio_state \<Rightarrow> gpio_state" where
  "drive_mecanum vx' vy' omega' max_speed g =
     (case mecanum_wheels vx' vy' omega' max_speed of
        (fl, fr, rl, rr) \<Rightarrow>
          apply_motor D rr (apply_motor C rl (apply_motor B fr (apply_motor A fl g))))"

subsection \<open>IR transmission\<close>

text \<open>
  \<^verbatim>\<open>send_ir_burst\<close> builds one carrier cycle as a wave and chains it
  \<^verbatim>\<open>burst_us // CARRIER_PERIOD_US\<close> times; the model appends the call to the trace
  \<open>ir_tx\<close> of what was driven out of the transmit pin.
\<close>

definition send_ir_burst :: "int \<Rightarrow> robot \<Rightarrow> robot" where
  "send_ir_burst b s =
     (let cycles = b div CARRIER_PERIOD_US
      in s\<lparr>ir_tx := ir_tx s @
           [\<lparr>burst_us = b, cycles_lo = cycles AND 255, cycles_hi = drop_bit 8 cycles AND 255\<rparr>]\<rparr>)"

definition send_ir_bit :: "int \<Rightarrow> robot \<Rightarrow> robot" where
  "send_ir_bit b s = (if b = 1 then send_ir_burst BIT_1_BURST s else send_ir_burst BIT_0_BURST s)"

definition send_team_id :: "int \<Rightarrow> robot \<Rightarrow> robot" where
  "send_team_id t s =
     (if is_hit (laser_tag_state s) then s
      else
        let s1 = send_ir_burst START_END_BURST s;
            s2 = foldl (\<lambda>r i. send_ir_bit (drop_bit (7 - i) t AND 1) r) s1 [0..<8]
        in send_ir_burst START_END_BURST s2)"

subsection \<open>IR reception and hits\<close>

definition on_laser_hit :: "int \<Rightarrow> real \<Rightarrow> robot \<Rightarrow> robot" where
  "on_laser_hit attacking_team now s =
     (if is_hit (laser_tag_state s) then s
      else
        let lt = (if attacking_team = team_id (state s)
                  then \<lparr>is_hit = True, hit_by_team = attacking_team, hit_time = now,
                        time_remaining = HIT_DISABLE_TIME, is_self_hit = True\<rparr>
                  else \<lparr>is_hit = True, hit_by_team = attacking_team, hit_time = now,
                        time_remaining = HIT_DISABLE_TIME, is_self_hit = False\<rparr>)
        in s\<lparr>laser_tag_state := lt, gpio := enter_standby (stop_all_motors (gpio s))\<rparr>)"

text \<open>
  The loop \<^verbatim>\<open>for i in range(1, 9)\<close> of \<^verbatim>\<open>process_bursts\<close>, over the indices still to
  visit; \<open>None\<close> is the early \<^verbatim>\<open>return\<close> on an invalid burst.
\<close>

fun decode_bits :: "int list \<Rightarrow> nat list \<Rightarrow> int \<Rightarrow> int option" where
  "decode_bits bursts [] tid = Some tid"
| "decode_bits bursts (i # is) tid =
     (let burst = bursts ! i;
          bit_pos = 7 - (i - 1)
      in if \<bar>burst - BIT_1_BURST\<bar> \<le> TOLERANCE then decode_bits bursts is (tid OR push_bit bit_pos 1)
         else if \<bar>burst - BIT_0_BURST\<bar> \<le> TOLERANCE then decode_bits bursts is tid
         else None)"

text \<open>
  \<^verbatim>\<open>process_bursts\<close> up to its last line: \<open>Some t\<close> when control reaches
  \<^verbatim>\<open>on_laser_hit(team_id)\<close> with \<open>team_id = t\<close>, \<open>None\<close> on each early return.
\<close>

definition decode_frame :: "int list \<Rightarrow> int option" where
  "decode_frame bursts =
     (if length bursts \<noteq> 10 then None
      else if \<bar>bursts ! 0 - START_END_BURST\<bar> > TOLERANCE \<or>
              \<bar>bursts ! 9 - START_END_BURST\<bar> > TOLERANCE then None
      else decode_bits bursts [1..<9] 0)"

definition process_bursts :: "int list \<Rightarrow> real \<Rightarrow> robot \<Rightarrow> robot" where
  "process_bursts bursts now s =
     (case decode_frame bursts of None \<Rightarrow> s | Some t \<Rightarrow> on_laser_hit t now s)"

subsection \<open>UDP control\<close>

text \<open>
  A decoded JSON command; a field is \<open>None\<close> when the key is absent. Values of the
  wrong JSON type, on which \<^verbatim>\<open>float()\<close> or \<^verbatim>\<open>int()\<close> would raise, are not modelled.
\<close>

record cmd_msg =
  msg_vx :: "real option"
  msg_vy :: "real option"
  msg_omega :: "real option"
  msg_speed :: "real option"
  msg_estop :: "bool option"
  msg_fire :: "bool option"
  msg_team_id :: "int option"
  msg_last_input_time :: "real option"

record telemetry =
  r_team_id :: int
  r_is_hit :: bool
  r_hit_by_team :: int
  r_time_remaining :: real
  r_is_self_hit :: bool

fun get_default :: "'a option \<Rightarrow> 'a \<Rightarrow> 'a" where
  "get_default None d = d"
| "get_default (Some v) d = v"

text \<open>
  \<^verbatim>\<open>datagram_received\<close>: the argument is \<open>None\<close> when \<^verbatim>\<open>json.loads\<close> raises. The result
  is the new state, whether a thread running \<^verbatim>\<open>send_team_id\<close> was started, and the
  response handed to \<^verbatim>\<open>sendto\<close>.
\<close>

definition datagram_received ::
  "cmd_msg option \<Rightarrow> real \<Rightarrow> robot \<Rightarrow> robot \<times> bool \<times> telemetry option" where
  "datagram_received data now s =
     (case data of
        None \<Rightarrow> (s, False, None)
      | Some msg \<Rightarrow>
          let st = state s;
              st' = \<lparr>vx = get_default (msg_vx msg) (vx st),
                     vy = get_default (msg_vy msg) (vy st),
                     omega = get_default (msg_omega msg) (omega st),
                     speed = clamp (get_default (msg_speed msg) (speed st)) 0 1,
                     estop = get_default (msg_estop msg) False,
                     fire = get_default (msg_fire msg) False,
                     team_id = get_default (msg_team_id msg) (team_id st)\<rparr>;
              s1 = s\<lparr>state := st', last_cmd_time := now\<rparr>;
              s2 = (case msg_last_input_time msg of
                      None \<Rightarrow> s1
                    | Some t \<Rightarrow> s1\<lparr>last_input_time := t\<rparr>);
              started = (fire st' \<and> \<not> is_hit (laser_tag_state s2));
              s3 = (if in_standby s2 \<and>
                       (\<bar>vx st'\<bar> > 5 / 100 \<or> \<bar>vy st'\<bar> > 5 / 100 \<or>
                        \<bar>omega st'\<bar> > 5 / 100 \<or> estop st')
                    then s2\<lparr>gpio := exit_standby (gpio s2), in_standby := False\<rparr>
                    else s2);
              response = \<lparr>r_team_id = team_id st',
                          r_is_hit = is_hit (laser_tag_state s3),
                          r_hit_by_team = hit_by_team (laser_tag_state s3),
                          r_time_remaining = time_remaining (laser_tag_state s3),
                          r_is_self_hit = is_self_hit (laser_tag_state s3)\<rparr>
          in (s3, started, Some response))"

subsection \<open>Control loop\<close>

text \<open>One iteration of \<^verbatim>\<open>control_loop\<close>, first half: the laser-tag timer.\<close>

definition update_laser_timer :: "real \<Rightarrow> robot \<Rightarrow> robot" where
  "update_laser_timer now s =
     (if is_hit (laser_tag_state s) then
        let elapsed = now - hit_time (laser_tag_state s);
            s1 = s\<lparr>laser_tag_state :=
                     (laser_tag_state s)\<lparr>time_remaining := max 0 (HIT_DISABLE_TIME - elapsed)\<rparr>\<rparr>
        in if elapsed \<ge> HIT_DISABLE_TIME then
             s1\<lparr>laser_tag_state :=
                   \<lparr>is_hit = False, hit_by_team = 0, hit_time = 0,
                    time_remaining = 0, is_self_hit = False\<rparr>,
                gpio := exit_standby (gpio s1),
                in_standby := False\<rparr>
           else s1
      else s)"

text \<open>Second half: the motor control logic.\<close>

definition motor_control :: "real \<Rightarrow> robot \<Rightarrow> robot" where
  "motor_control now s =
     (if is_hit (laser_tag_state s) \<or> estop (state s) \<or> now - last_cmd_time s > COMMAND_TIMEOUT_S
      then s\<lparr>gpio := stop_all_motors (gpio s)\<rparr>
      else if now - last_input_time s > POWER_SAVE_TIMEOUT_S \<and> \<not> in_standby s
      then s\<lparr>gpio := enter_standby (gpio s), in_standby := True\<rparr>
      else if \<not> in_standby s \<and> \<not> is_hit (laser_tag_state s)
      then s\<lparr>gpio := drive_mecanum (vx (state s)) (vy (state s)) (omega (state s))
                        (speed (state s)) (gpio s)\<rparr>
      else s)"

definition control_tick :: "real \<Rightarrow> robot \<Rightarrow> robot" where
  "control_tick now s = motor_control now (update_laser_timer now s)"

text \<open>
  \<^verbatim>\<open>control_loop\<close> never returns; its first iterations, one per clock reading of the
  list.
\<close>

fun control_loop :: "real list \<Rightarrow> robot \<Rightarrow> robot" where
  "control_loop [] s = s"
| "control_loop (now # nows) s = control_loop nows (control_tick now s)"

text \<open>
  The callbacks that run against the shared state once the program is up, each taken
  as one atomic step: a control tick, a datagram, a completed burst buffer of a
  receiver, and the body of the thread started for a fire command.
\<close>

datatype event =
    Tick real
  | Datagram "cmd_msg option" real
  | Bursts "int list" real
  | FireThread

fun step :: "event \<Rightarrow> robot \<Rightarrow> robot" where
  "step (Tick now) s = control_tick now s"
| "step (Datagram data now) s = fst (datagram_received data now s)"
| "step (Bursts bursts now) s = process_bursts bursts now s"
| "step FireThread s = send_team_id (team_id (state s)) s"

text \<open>The module's initial values, on a driver state \<open>g\<close> left by \<^verbatim>\<open>setup_io\<close>.\<close>

definition setup_io :: "gpio_state \<Rightarrow> gpio_state" where
  "setup_io g =
     (let g1 = foldl (\<lambda>h s. h(s := Write 1)) g STBY_PINS;
          g2 = foldl (\<lambda>h m. h(EN m := Write 0, IN1 m := Write 0, IN2 m := Write 0)) g1 MOTORS
      in g2(IR_TX_GPIO := Write 0))"

definition initial_robot :: "real \<Rightarrow> robot" where
  "initial_robot now =
     \<lparr>state = \<lparr>vx = 0, vy = 0, omega = 0, speed = 1, estop = False, fire = False, team_id = 1\<rparr>,
      laser_tag_state = \<lparr>is_hit = False, hit_by_team = 0, hit_time = 0,
                         time_remaining = 0, is_self_hit = False\<rparr>,
      last_cmd_time = now, last_input_time = now, in_standby = False,
      gpio = setup_io (\<lambda>_. Write 0), ir_tx = []\<rparr>"

text \<open>What a zero-jitter receiver measures of a transmission: the requested durations.\<close>

definition frame_of :: "int \<Rightarrow> int list" where
  "frame_of t = map burst_us (ir_tx (send_team_id t (initial_robot 0)))"

subsection \<open>Notions used in the statements\<close>

text \<open>The burst that \<^verbatim>\<open>send_ir_bit\<close> requests for a bit.\<close>

abbreviation bit_burst :: "bool \<Rightarrow> int" where
  "bit_burst b \<equiv> (if b then BIT_1_BURST else BIT_0_BURST)"

text \<open>
  All four motor channels are stopped: the last request on each enable pin is PWM duty 0
  and on each direction pin level 0, which is what \<^verbatim>\<open>stop_all_motors\<close> asks for.
\<close>

definition motors_stopped :: "gpio_state \<Rightarrow> bool" where
  "motors_stopped g =
     list_all (\<lambda>m. g (EN m) = PWM_dutycycle 0 \<and> g (IN1 m) = Write 0 \<and> g (IN2 m) = Write 0) MOTORS"


text \<open>Two commands: one with no key at all, one that only asserts \<^verbatim>\<open>estop\<close>.\<close>

abbreviation idle_msg :: cmd_msg where
  "idle_msg \<equiv> \<lparr>msg_vx = None, msg_vy = None, msg_omega = None, msg_speed = None,
     msg_estop = None, msg_fire = None, msg_team_id = None, msg_last_input_time = None\<rparr>"

abbreviation estop_msg :: cmd_msg where
  "estop_msg \<equiv> \<lparr>msg_vx = None, msg_vy = None, msg_omega = None, msg_speed = None,
     msg_estop = Some True, msg_fire = None, msg_team_id = None, msg_last_input_time = None\<rparr>"

section \<open>Properties\<close>

subsection \<open>Evaluation lemmas\<close>

lemma CARRIER_PERIOD_US_eq: "CARRIER_PERIOD_US = 26"
  by (simp add: CARRIER_PERIOD_US_def CARRIER_FREQ_def)

lemma upt_0_8: "[0..<8] = [0, 1, 2, 3, 4, 5, 6, 7]"
  by code_simp

lemma upt_1_9: "[1..<9] = [1, 2, 3, 4, 5, 6, 7, 8]"
  by code_simp

lemma initial_not_hit: "\<not> is_hit (laser_tag_state (initial_robot now))"
  by (simp add: initial_robot_def)

lemma initial_state:
  "state (initial_robot now) =
     \<lparr>vx = 0, vy = 0, omega = 0, speed = 1, estop = False, fire = False, team_id = 1\<rparr>"
  by (simp add: initial_robot_def)

lemma hit_sets_is_hit: "is_hit (laser_tag_state (on_laser_hit t now s))"
  by (simp add: on_laser_hit_def Let_def)

subsection \<open>Hits while disabled, and firing while disabled\<close>

text \<open>
  C7. In every state whose \<open>is_hit\<close> flag is set, \<open>on_laser_hit\<close> with any attacking team
  and at any time returns the state as it was: no field of the laser-tag state (nor of
  the rest of the robot) changes, so the hit is neither retriggered nor is the disable
  time extended. The same holds for any burst buffer handed to \<open>process_bursts\<close>.
\<close>

theorem hit_while_disabled_ignored:
  "is_hit (laser_tag_state s) \<Longrightarrow>
     on_laser_hit t now s = s \<and> process_bursts bursts now s = s"
  by (simp add: on_laser_hit_def process_bursts_def split: option.split)

theorem hit_while_disabled_ignored_witness:
  "is_hit (laser_tag_state (on_laser_hit 2 0 (initial_robot 0))) \<and>
   on_laser_hit 3 5 (on_laser_hit 2 0 (initial_robot 0)) = on_laser_hit 2 0 (initial_robot 0) \<and>
   process_bursts [] 5 (on_laser_hit 2 0 (initial_robot 0)) = on_laser_hit 2 0 (initial_robot 0)"
proof -
  have h: "is_hit (laser_tag_state (on_laser_hit 2 0 (initial_robot 0)))"
    by (rule hit_sets_is_hit)
  show ?thesis
    using h hit_while_disabled_ignored [OF h, of 3 5 "[]"] by simp
qed

text \<open>
  C8. While the laser-tag state reports the robot as hit, \<open>send_team_id\<close> returns the
  state unchanged, so nothing is appended to the trace of the transmit pin; and
  \<open>datagram_received\<close> starts no transmission thread, whatever the datagram says
  (a \<open>fire = true\<close> command included), and leaves the transmit trace as it was.
\<close>

theorem fire_suppressed_while_hit:
  "is_hit (laser_tag_state s) \<Longrightarrow>
     send_team_id t s = s \<and>
     \<not> fst (snd (datagram_received data now s)) \<and>
     ir_tx (fst (datagram_received data now s)) = ir_tx s"
  by (simp add: send_team_id_def datagram_received_def Let_def split: option.split)

theorem fire_suppressed_while_hit_witness:
  "is_hit (laser_tag_state (on_laser_hit 2 0 (initial_robot 0))) \<and>
   send_team_id 1 (on_laser_hit 2 0 (initial_robot 0)) = on_laser_hit 2 0 (initial_robot 0) \<and>
   \<not> fst (snd (datagram_received
       (Some \<lparr>msg_vx = None, msg_vy = None, msg_omega = None, msg_speed = None,
              msg_estop = None, msg_fire = Some True, msg_team_id = None,
              msg_last_input_time = None\<rparr>) 1 (on_laser_hit 2 0 (initial_robot 0))))"
proof -
  have h: "is_hit (laser_tag_state (on_laser_hit 2 0 (initial_robot 0)))"
    by (rule hit_sets_is_hit)
  show ?thesis
    using h fire_suppressed_while_hit [OF h, of 1
      "Some \<lparr>msg_vx = None, msg_vy = None, msg_omega = None, msg_speed = None,
              msg_estop = None, msg_fire = Some True, msg_team_id = None,
              msg_last_input_time = None\<rparr>" 1]
    by simp
qed

subsection \<open>IR codec\<close>

lemma bit_test_iff: "(drop_bit k t AND 1 = 1) = bit t k" for t :: int
  by (simp add: and_one_eq bit_iff_odd_drop_bit odd_iff_mod_2_eq_one)

lemma sent_frame:
  "\<not> is_hit (laser_tag_state s) \<Longrightarrow>
   map burst_us (ir_tx (send_team_id t s)) = map burst_us (ir_tx s) @
     [START_END_BURST, bit_burst (bit t 7), bit_burst (bit t 6), bit_burst (bit t 5),
      bit_burst (bit t 4), bit_burst (bit t 3), bit_burst (bit t 2), bit_burst (bit t 1),
      bit_burst (bit t 0), START_END_BURST]"
  by (simp add: send_team_id_def upt_0_8 send_ir_bit_def send_ir_burst_def bit_test_iff Let_def
      del: bit_0_eq)

lemma frame_of_eq:
  "frame_of t = [START_END_BURST, bit_burst (bit t 7), bit_burst (bit t 6), bit_burst (bit t 5),
     bit_burst (bit t 4), bit_burst (bit t 3), bit_burst (bit t 2), bit_burst (bit t 1),
     bit_burst (bit t 0), START_END_BURST]"
  unfolding frame_of_def
  by (subst sent_frame) (simp_all add: initial_robot_def)

lemma length_frame_of: "length (frame_of t) = 10"
  by (simp add: frame_of_eq)

lemma frame_of_ends: "frame_of t ! 0 = START_END_BURST" "frame_of t ! 9 = START_END_BURST"
  by (simp_all add: frame_of_eq)

lemma take_bit_8_bits:
  "take_bit 8 t = of_bool (bit t 7) * 128 + of_bool (bit t 6) * 64 + of_bool (bit t 5) * 32 +
     of_bool (bit t 4) * 16 + of_bool (bit t 3) * 8 + of_bool (bit t 2) * 4 +
     of_bool (bit t 1) * 2 + of_bool (bit t 0)" for t :: int
proof -
  have "take_bit 8 t = take_bit (Suc (Suc (Suc (Suc (Suc (Suc (Suc (Suc 0)))))))) t"
    by (simp add: eval_nat_numeral)
  also have "\<dots> = of_bool (bit t 7) * 128 + of_bool (bit t 6) * 64 + of_bool (bit t 5) * 32 +
     of_bool (bit t 4) * 16 + of_bool (bit t 3) * 8 + of_bool (bit t 2) * 4 +
     of_bool (bit t 1) * 2 + of_bool (bit t 0)"
    unfolding take_bit_Suc_from_most
    by (simp add: eval_nat_numeral del: bit_0_eq)
  finally show ?thesis .
qed

lemma upt_Suc0_9: "[Suc 0..<9] = [Suc 0, 2, 3, 4, 5, 6, 7, 8]"
  using upt_1_9 by simp

lemma decode_frame_bits:
  "decode_frame [START_END_BURST, bit_burst b7, bit_burst b6, bit_burst b5, bit_burst b4,
      bit_burst b3, bit_burst b2, bit_burst b1, bit_burst b0, START_END_BURST]
   = Some (of_bool b7 * 128 + of_bool b6 * 64 + of_bool b5 * 32 + of_bool b4 * 16 +
           of_bool b3 * 8 + of_bool b2 * 4 + of_bool b1 * 2 + of_bool b0)"
  by (cases b7; cases b6; cases b5; cases b4; cases b3; cases b2; cases b1; cases b0)
     (simp_all add: decode_frame_def upt_Suc0_9 BIT_1_BURST_def BIT_0_BURST_def
        START_END_BURST_def TOLERANCE_def)

lemma decode_frame_of: "decode_frame (frame_of t) = Some (take_bit 8 t)"
  by (simp only: frame_of_eq decode_frame_bits take_bit_8_bits)

lemma take_bit_8_id: "0 \<le> t \<Longrightarrow> t \<le> 255 \<Longrightarrow> take_bit 8 t = t" for t :: int
  by (simp add: take_bit_int_eq_self)

lemma decode_frame_2: "decode_frame (frame_of 2) = Some 2"
  by (simp add: decode_frame_of take_bit_8_id)

lemma hit_state:
  "\<not> is_hit (laser_tag_state s) \<Longrightarrow>
   laser_tag_state (on_laser_hit t now s) =
     \<lparr>is_hit = True, hit_by_team = t, hit_time = now, time_remaining = HIT_DISABLE_TIME,
      is_self_hit = (t = team_id (state s))\<rparr>"
  by (simp add: on_laser_hit_def)

text \<open>
  C1. For every team id \<open>t\<close> in 0..255: a sender that is not hit drives out the ten bursts
  \<open>frame_of t\<close> (a 2400 us start burst, one burst per bit from bit 7 down to bit 0, 1600 us
  for a one and 800 us for a zero, and a 2400 us end burst); \<open>process_bursts\<close> on exactly
  these durations reaches \<open>on_laser_hit\<close> with \<open>t\<close>, and in a receiver that is not already hit
  the recorded hit carries \<open>hit_by_team = t\<close>, with \<open>is_self_hit\<close> true exactly when \<open>t\<close> is the
  receiver's own configured team id.
\<close>

theorem ir_round_trip:
  assumes "0 \<le> t" and "t \<le> 255"
  shows "(\<not> is_hit (laser_tag_state tx) \<longrightarrow>
            map burst_us (ir_tx (send_team_id t tx)) = map burst_us (ir_tx tx) @ frame_of t) \<and>
         frame_of t = START_END_BURST # map (\<lambda>k. bit_burst (bit t k)) [7, 6, 5, 4, 3, 2, 1, 0]
                        @ [START_END_BURST] \<and>
         decode_frame (frame_of t) = Some t \<and>
         process_bursts (frame_of t) now rx = on_laser_hit t now rx \<and>
         (\<not> is_hit (laser_tag_state rx) \<longrightarrow>
            laser_tag_state (process_bursts (frame_of t) now rx) =
              \<lparr>is_hit = True, hit_by_team = t, hit_time = now,
               time_remaining = HIT_DISABLE_TIME, is_self_hit = (t = team_id (state rx))\<rparr>)"
proof -
  have d: "decode_frame (frame_of t) = Some t"
    using assms by (simp add: decode_frame_of take_bit_8_id)
  then have p: "process_bursts (frame_of t) now rx = on_laser_hit t now rx"
    by (simp add: process_bursts_def)
  have f: "frame_of t = START_END_BURST # map (\<lambda>k. bit_burst (bit t k)) [7, 6, 5, 4, 3, 2, 1, 0]
                        @ [START_END_BURST]"
    by (simp add: frame_of_eq del: bit_0_eq)
  have s: "\<not> is_hit (laser_tag_state tx) \<longrightarrow>
            map burst_us (ir_tx (send_team_id t tx)) = map burst_us (ir_tx tx) @ frame_of t"
  proof
    assume h: "\<not> is_hit (laser_tag_state tx)"
    show "map burst_us (ir_tx (send_team_id t tx)) = map burst_us (ir_tx tx) @ frame_of t"
      unfolding frame_of_eq by (rule sent_frame [OF h])
  qed
  have l: "\<not> is_hit (laser_tag_state rx) \<longrightarrow>
            laser_tag_state (process_bursts (frame_of t) now rx) =
              \<lparr>is_hit = True, hit_by_team = t, hit_time = now,
               time_remaining = HIT_DISABLE_TIME, is_self_hit = (t = team_id (state rx))\<rparr>"
    by (simp add: p hit_state)
  show ?thesis
    by (intro conjI; fact)
qed

lemma frame_of_5: "frame_of 5 = [2400, 800, 800, 800, 800, 800, 1600, 800, 1600, 2400]"
  by (simp add: frame_of_eq bit_iff_odd BIT_1_BURST_def BIT_0_BURST_def START_END_BURST_def)

theorem ir_round_trip_witness:
  "(0::int) \<le> 5 \<and> (5::int) \<le> 255 \<and>
   \<not> is_hit (laser_tag_state (initial_robot 0)) \<and>
   map burst_us (ir_tx (send_team_id 5 (initial_robot 0))) = frame_of 5 \<and>
   decode_frame (frame_of 5) = Some 5 \<and>
   laser_tag_state (process_bursts (frame_of 5) 3 (initial_robot 0)) =
     \<lparr>is_hit = True, hit_by_team = 5, hit_time = 3, time_remaining = 10, is_self_hit = False\<rparr>"
proof -
  have h: "\<not> is_hit (laser_tag_state (initial_robot 0))"
    by (rule initial_not_hit)
  have t: "team_id (state (initial_robot 0)) = 1" "ir_tx (initial_robot 0) = []"
    by (simp_all add: initial_robot_def)
  have a: "(0::int) \<le> 5" "(5::int) \<le> 255"
    by simp_all
  have r: "(\<not> is_hit (laser_tag_state (initial_robot 0)) \<longrightarrow>
       map burst_us (ir_tx (send_team_id 5 (initial_robot 0))) =
         map burst_us (ir_tx (initial_robot 0)) @ frame_of 5) \<and>
     decode_frame (frame_of 5) = Some 5 \<and>
     (\<not> is_hit (laser_tag_state (initial_robot 0)) \<longrightarrow>
       laser_tag_state (process_bursts (frame_of 5) 3 (initial_robot 0)) =
         \<lparr>is_hit = True, hit_by_team = 5, hit_time = 3, time_remaining = HIT_DISABLE_TIME,
          is_self_hit = (5 = team_id (state (initial_robot 0)))\<rparr>)"
    using ir_round_trip [OF a, where tx = "initial_robot 0" and now = 3 and rx = "initial_robot 0"]
    by blast
  show ?thesis
    using h r by (simp add: t HIT_DISABLE_TIME_def)
qed

lemma decode_bits_invalid:
  "i \<in> set js \<Longrightarrow> \<not> \<bar>bursts ! i - BIT_1_BURST\<bar> \<le> TOLERANCE \<Longrightarrow>
   \<not> \<bar>bursts ! i - BIT_0_BURST\<bar> \<le> TOLERANCE \<Longrightarrow> decode_bits bursts js acc = None"
  by (induction js arbitrary: acc) (auto simp: Let_def)

lemma decode_bits_same_class:
  "\<forall>i \<in> set js.
       (\<bar>xs ! i - BIT_1_BURST\<bar> \<le> TOLERANCE) = (\<bar>ys ! i - BIT_1_BURST\<bar> \<le> TOLERANCE) \<and>
       (\<bar>xs ! i - BIT_0_BURST\<bar> \<le> TOLERANCE) = (\<bar>ys ! i - BIT_0_BURST\<bar> \<le> TOLERANCE) \<Longrightarrow>
   decode_bits xs js acc = decode_bits ys js acc"
  by (induction js arbitrary: acc) (auto simp: Let_def)

lemma frame_of_unset_bit:
  assumes "1 \<le> i" and "i \<le> 8"
  shows "frame_of (unset_bit (8 - i) t) = (frame_of t)[i := BIT_0_BURST]"
proof -
  from assms have "i = 1 \<or> i = 2 \<or> i = 3 \<or> i = 4 \<or> i = 5 \<or> i = 6 \<or> i = 7 \<or> i = 8"
    by arith
  then show ?thesis
    by (elim disjE) (simp_all add: frame_of_eq bit_unset_bit_iff del: bit_0_eq)
qed

lemma unset_bit_u8: "0 \<le> t \<Longrightarrow> t \<le> 255 \<Longrightarrow> take_bit 8 (unset_bit k t) = unset_bit k t"
  for t :: int
proof -
  assume "0 \<le> t" "t \<le> 255"
  moreover have "unset_bit k t \<le> t"
    by (rule unset_bit_less_eq)
  moreover have "0 \<le> unset_bit k t"
    using \<open>0 \<le> t\<close> by simp
  ultimately show ?thesis
    by (intro take_bit_int_eq_self) simp_all
qed

lemma decode_frame_boundary_ok:
  assumes "1 \<le> i" and "i \<le> 8"
  shows "decode_frame ((frame_of t)[i := 1000]) = Some (take_bit 8 (unset_bit (8 - i) t))"
proof -
  have "decode_bits ((frame_of t)[i := 1000]) [1..<9] 0 =
        decode_bits ((frame_of t)[i := BIT_0_BURST]) [1..<9] 0"
    by (rule decode_bits_same_class)
       (use assms in \<open>auto simp: nth_list_update length_frame_of BIT_0_BURST_def
          BIT_1_BURST_def TOLERANCE_def\<close>)
  with assms have "decode_frame ((frame_of t)[i := 1000]) =
      decode_frame ((frame_of t)[i := BIT_0_BURST])"
    by (simp add: decode_frame_def length_frame_of frame_of_ends)
  also have "\<dots> = decode_frame (frame_of (unset_bit (8 - i) t))"
    using assms by (simp add: frame_of_unset_bit)
  finally show ?thesis
    by (simp add: decode_frame_of)
qed

lemma decode_frame_boundary_bad:
  assumes "1 \<le> i" and "i \<le> 8"
  shows "decode_frame ((frame_of t)[i := 1001]) = None"
proof -
  have "decode_bits ((frame_of t)[i := 1001]) [1..<9] 0 = None"
    using assms
    by (intro decode_bits_invalid [of i])
       (simp_all add: length_frame_of BIT_0_BURST_def BIT_1_BURST_def TOLERANCE_def)
  then show ?thesis
    by (simp add: decode_frame_def)
qed

text \<open>
  C4. Take the exact frame of a team id \<open>t\<close> in 0..255 and replace the burst at an interior
  position \<open>i\<close> (1 to 8) by another duration. A burst of 1000 us is within the tolerance of
  \<open>BIT_0_BURST\<close> and not of \<open>BIT_1_BURST\<close>: the frame decodes, to \<open>t\<close> with bit \<open>8 - i\<close> cleared,
  and \<open>process_bursts\<close> reaches \<open>on_laser_hit\<close> with that id. A burst of 1001 us is within the
  tolerance of neither: decoding returns early and \<open>process_bursts\<close> leaves the state as it
  was, without calling \<open>on_laser_hit\<close>.
\<close>

theorem tolerance_boundary:
  assumes "0 \<le> t" and "t \<le> 255" and "1 \<le> i" and "i \<le> 8"
  shows "\<bar>1000 - BIT_0_BURST\<bar> \<le> TOLERANCE \<and> \<not> \<bar>1000 - BIT_1_BURST\<bar> \<le> TOLERANCE \<and>
         decode_frame ((frame_of t)[i := 1000]) = Some (unset_bit (8 - i) t) \<and>
         process_bursts ((frame_of t)[i := 1000]) now s = on_laser_hit (unset_bit (8 - i) t) now s \<and>
         \<not> \<bar>1001 - BIT_0_BURST\<bar> \<le> TOLERANCE \<and> \<not> \<bar>1001 - BIT_1_BURST\<bar> \<le> TOLERANCE \<and>
         decode_frame ((frame_of t)[i := 1001]) = None \<and>
         process_bursts ((frame_of t)[i := 1001]) now s = s"
  using assms
  by (simp add: decode_frame_boundary_ok decode_frame_boundary_bad unset_bit_u8
      process_bursts_def BIT_0_BURST_def BIT_1_BURST_def TOLERANCE_def)

theorem tolerance_boundary_witness:
  "(0::int) \<le> 5 \<and> (5::int) \<le> 255 \<and> (1::nat) \<le> 8 \<and> (8::nat) \<le> 8 \<and>
   (frame_of 5)[8 := 1000] = [2400, 800, 800, 800, 800, 800, 1600, 800, 1000, 2400] \<and>
   decode_frame ((frame_of 5)[8 := 1000]) = Some 4 \<and>
   decode_frame ((frame_of 5)[8 := 1001]) = None \<and>
   process_bursts ((frame_of 5)[8 := 1001]) 3 (initial_robot 0) = initial_robot 0"
proof -
  have u: "unset_bit 0 (5::int) = 4"
    by (simp add: unset_bit_eq_and_not)
  show ?thesis
    using tolerance_boundary [of 5 8 3 "initial_robot 0"]
    by (simp add: u frame_of_5)
qed

subsection \<open>Drive kinematics\<close>



lemma wheels_forward: "mecanum_wheels 1 0 0 1 = (1, 1, 1, 1)"
  unfolding mecanum_wheels_def Let_def by simp

lemma wheels_rotate: "mecanum_wheels 0 0 1 1 = (1, - 1, 1, - 1)"
  unfolding mecanum_wheels_def Let_def by simp

lemma wheels_zero: "mecanum_wheels 0 0 0 x = (0, 0, 0, 0)"
  unfolding mecanum_wheels_def Let_def by simp




text \<open>
  C3. \<open>drive_mecanum(1, 0, 0, 1)\<close> computes the wheel values (1, 1, 1, 1): all equal and
  positive. \<open>drive_mecanum(0, 0, 1, 1)\<close> computes (1, -1, 1, -1): fl and rl equal and positive,
  fr and rr equal and negative. \<open>drive_mecanum(0, 0, 0, x)\<close> computes (0, 0, 0, 0) for every
  \<open>x\<close>, in particular for every \<open>x\<close> from 0 to 1.
\<close>

theorem kinematics_symmetry:
  "mecanum_wheels 1 0 0 1 = (1, 1, 1, 1) \<and>
   mecanum_wheels 0 0 1 1 = (1, - 1, 1, - 1) \<and>
   mecanum_wheels 0 0 0 x = (0, 0, 0, 0)"
  by (simp only: wheels_forward wheels_rotate wheels_zero)

subsection \<open>Motor duty mapping\<close>

lemma pins_distinct:
  "EN n \<noteq> IN1 n" "EN n \<noteq> IN2 n" "IN1 n \<noteq> IN2 n" "IN1 n \<noteq> EN n" "IN2 n \<noteq> EN n" "IN2 n \<noteq> IN1 n"
  by (cases n; simp)+

lemma DIR_OFFSET_one: "DIR_OFFSET n = 1"
  by (cases n) simp_all

lemma duty_bounds:
  "pct < 80 \<Longrightarrow> 76 \<le> max 30 pct * 255 div 100 \<and> max 30 pct * 255 div 100 \<le> 201" for pct :: int
  by (auto simp: max_def) 

lemma clamp_id: "\<bar>v\<bar> \<le> 1 \<Longrightarrow> clamp v (- 1) 1 = v"
  by (auto simp: clamp_def)

lemma double_exponent_eq:
  assumes "2 ^ j \<le> a" and "a < 2 ^ Suc j"
  shows "double_exponent a = int j"
proof -
  let ?N = "\<lfloor>a * 2 ^ 1074\<rfloor>"
  have lo: "(2::int) ^ (j + 1074) \<le> ?N"
  proof -
    have "(2::real) ^ (j + 1074) \<le> a * 2 ^ 1074"
      using assms(1) by (simp add: power_add)
    then have "real_of_int (2 ^ (j + 1074)) \<le> a * 2 ^ 1074"
      by simp
    then show ?thesis
      by (simp only: le_floor_iff)
  qed
  have hi: "?N < 2 ^ (j + 1075)"
  proof -
    have "a * 2 ^ 1074 < (2::real) ^ (j + 1075)"
      using assms(2) by (simp add: power_add)
    then have "a * 2 ^ 1074 < real_of_int (2 ^ (j + 1075))"
      by simp
    then show ?thesis
      by (simp only: floor_less_iff)
  qed
  have "(0::int) < 2 ^ (j + 1074)"
    by simp
  with lo have pos: "0 < ?N"
    by linarith
  from bitlen_bounds [OF pos] lo hi
  have "(2::int) ^ nat (bitlen ?N - 1) < 2 ^ (j + 1075)"
    and "(2::int) ^ (j + 1074) < 2 ^ nat (bitlen ?N)"
    by linarith+
  then have "nat (bitlen ?N - 1) < j + 1075" and "j + 1074 < nat (bitlen ?N)"
    by simp_all
  then have "bitlen ?N = int j + 1075"
    by linarith
  then show ?thesis
    by (simp add: double_exponent_def)
qed

lemma round_double_eq:
  assumes "2 ^ j \<le> a" and "a < 2 ^ Suc j" and "j < 52"
  shows "round_double a = real_of_int (round_half_even (a * 2 ^ (52 - j))) / 2 ^ (52 - j)"
proof -
  have "(0::real) < 2 ^ j"
    by simp
  with assms(1) have "0 < a"
    by linarith
  moreover from assms(3) have "nat (52 - int j) = 52 - j"
    by simp
  ultimately show ?thesis
    using assms(3)
    by (simp add: round_double_def Let_def double_exponent_eq [OF assms(1,2)] double_ulp_def)
qed

lemma float_mul_values:
  "float_mul (7 / 8) 100 = 175 / 2"
  "float_mul (1 / 2) 100 = 50"
  "float_mul (1 / 8) 100 = 25 / 2"
  "float_mul (7205759403792793 / 9007199254740992) 100 = 80"
  "float_mul (3152519739159347 / 9007199254740992) 100 = 35"
proof -
  show "float_mul (7 / 8) 100 = 175 / 2"
    unfolding float_mul_def
    by (subst round_double_eq [of 6]) (simp_all add: round_half_even_def)
  show "float_mul (1 / 2) 100 = 50"
    unfolding float_mul_def
    by (subst round_double_eq [of 5]) (simp_all add: round_half_even_def)
  show "float_mul (1 / 8) 100 = 25 / 2"
    unfolding float_mul_def
    by (subst round_double_eq [of 3]) (simp_all add: round_half_even_def)
  show "float_mul (7205759403792793 / 9007199254740992) 100 = 80"
    unfolding float_mul_def
    by (subst round_double_eq [of 6]) (simp_all add: round_half_even_def)
  show "float_mul (3152519739159347 / 9007199254740992) 100 = 35"
    unfolding float_mul_def
    by (subst round_double_eq [of 5]) (simp_all add: round_half_even_def)
qed

text \<open>
  C5. \<open>apply_motor\<close> works on \<open>c\<close>, the wheel value clamped to [-1, 1] (the value
  itself when it is normalised; \<open>DIR_OFFSET\<close> is 1 for every motor), and on the percentage
  \<open>pct = int(|c| * 100)\<close>, the integer part of the binary64 product. If \<open>|c| < 1e-3\<close> the channel is stopped: duty 0 on the enable pin
  and both direction pins low. Otherwise, if \<open>pct\<close> is at least 80, the enable pin is
  written high (no PWM); if it is below 80, the enable pin gets the PWM duty
  \<open>max(30, pct) * 255 // 100\<close>, which is never below the duty of the floor
  (\<open>30 * 255 // 100\<close>) and never above 255. The direction pins follow the sign of \<open>c\<close>.
\<close>

theorem motor_duty_mapping:
  fixes v :: real
  defines "c \<equiv> clamp v (- 1) 1"
  defines "pct \<equiv> \<lfloor>float_mul \<bar>c\<bar> 100\<rfloor>"
  shows "(\<bar>v\<bar> \<le> 1 \<longrightarrow> c = v) \<and>
         (\<bar>c\<bar> < 1 / 1000 \<longrightarrow>
            apply_motor name v g =
              g(EN name := PWM_dutycycle 0, IN1 name := Write 0, IN2 name := Write 0)) \<and>
         (1 / 1000 \<le> \<bar>c\<bar> \<and> 80 \<le> pct \<longrightarrow> apply_motor name v g (EN name) = Write 1) \<and>
         (1 / 1000 \<le> \<bar>c\<bar> \<and> pct < 80 \<longrightarrow>
            apply_motor name v g (EN name) = PWM_dutycycle (max 30 pct * 255 div 100) \<and>
            MIN_DUTY_FLOOR * 255 div 100 \<le> max 30 pct * 255 div 100 \<and>
            max 30 pct * 255 div 100 \<le> 255) \<and>
         (1 / 1000 \<le> \<bar>c\<bar> \<longrightarrow>
            apply_motor name v g (IN1 name) = Write (if 0 < c then 1 else 0) \<and>
            apply_motor name v g (IN2 name) = Write (if 0 < c then 0 else 1))"
proof -
  have 1: "\<bar>v\<bar> \<le> 1 \<longrightarrow> c = v"
    by (simp add: c_def clamp_id)
  have 2: "\<bar>c\<bar> < 1 / 1000 \<longrightarrow>
            apply_motor name v g =
              g(EN name := PWM_dutycycle 0, IN1 name := Write 0, IN2 name := Write 0)"
    by (simp add: apply_motor_def DIR_OFFSET_one c_def)
  have 3: "1 / 1000 \<le> \<bar>c\<bar> \<and> 80 \<le> pct \<longrightarrow> apply_motor name v g (EN name) = Write 1"
    by (simp add: apply_motor_def DIR_OFFSET_one c_def pct_def PURE_DC_THRESHOLD_def Let_def)
  have 4: "1 / 1000 \<le> \<bar>c\<bar> \<and> pct < 80 \<longrightarrow>
            apply_motor name v g (EN name) = PWM_dutycycle (max 30 pct * 255 div 100) \<and>
            MIN_DUTY_FLOOR * 255 div 100 \<le> max 30 pct * 255 div 100 \<and>
            max 30 pct * 255 div 100 \<le> 255"
  proof
    assume a: "1 / 1000 \<le> \<bar>c\<bar> \<and> pct < 80"
    then have e: "apply_motor name v g (EN name) = PWM_dutycycle (max 30 pct * 255 div 100)"
      by (simp add: apply_motor_def DIR_OFFSET_one c_def pct_def PURE_DC_THRESHOLD_def
          MIN_DUTY_FLOOR_def Let_def)
    from a have "76 \<le> max 30 pct * 255 div 100 \<and> max 30 pct * 255 div 100 \<le> 201"
      by (intro duty_bounds) simp
    then have b: "MIN_DUTY_FLOOR * 255 div 100 \<le> max 30 pct * 255 div 100"
      "max 30 pct * 255 div 100 \<le> 255"
      by (simp_all add: MIN_DUTY_FLOOR_def)
    show "apply_motor name v g (EN name) = PWM_dutycycle (max 30 pct * 255 div 100) \<and>
            MIN_DUTY_FLOOR * 255 div 100 \<le> max 30 pct * 255 div 100 \<and>
            max 30 pct * 255 div 100 \<le> 255"
      by (intro conjI) (rule e b)+
  qed
  have 5: "1 / 1000 \<le> \<bar>c\<bar> \<longrightarrow>
            apply_motor name v g (IN1 name) = Write (if 0 < c then 1 else 0) \<and>
            apply_motor name v g (IN2 name) = Write (if 0 < c then 0 else 1)"
    by (simp add: apply_motor_def DIR_OFFSET_one c_def pins_distinct Let_def)
  show ?thesis
    by (intro conjI) (rule 1 2 3 4 5)+
qed

theorem motor_duty_mapping_witness:
  "apply_motor A 0 (\<lambda>_. Write 1) = (\<lambda>_. Write 1)(18 := PWM_dutycycle 0, 23 := Write 0, 24 := Write 0) \<and>
   apply_motor A (7 / 8) (\<lambda>_. Write 0) 18 = Write 1 \<and>
   apply_motor A (7205759403792793 / 9007199254740992) (\<lambda>_. Write 0) 18 = Write 1 \<and>
   apply_motor A (1 / 2) (\<lambda>_. Write 0) 18 = PWM_dutycycle 127 \<and>
   apply_motor A (3152519739159347 / 9007199254740992) (\<lambda>_. Write 0) 18 = PWM_dutycycle 89 \<and>
   apply_motor A (1 / 8) (\<lambda>_. Write 0) 18 = PWM_dutycycle 76 \<and>
   apply_motor A (- 1 / 2) (\<lambda>_. Write 0) 23 = Write 0 \<and>
   apply_motor A (- 1 / 2) (\<lambda>_. Write 0) 24 = Write 1"
  using motor_duty_mapping [of 0 A "\<lambda>_. Write 1"]
    motor_duty_mapping [of "7 / 8" A "\<lambda>_. Write 0"]
    motor_duty_mapping [of "7205759403792793 / 9007199254740992" A "\<lambda>_. Write 0"]
    motor_duty_mapping [of "1 / 2" A "\<lambda>_. Write 0"]
    motor_duty_mapping [of "3152519739159347 / 9007199254740992" A "\<lambda>_. Write 0"]
    motor_duty_mapping [of "1 / 8" A "\<lambda>_. Write 0"]
    motor_duty_mapping [of "- 1 / 2" A "\<lambda>_. Write 0"]
  by (simp add: clamp_def float_mul_values)

subsection \<open>Effects on the driver pins\<close>

lemma stop_all_motors_eq:
  "stop_all_motors g = g(18 := PWM_dutycycle 0, 23 := Write 0, 24 := Write 0,
     19 := PWM_dutycycle 0, 25 := Write 0, 8 := Write 0,
     5 := PWM_dutycycle 0, 22 := Write 0, 26 := Write 0,
     6 := PWM_dutycycle 0, 16 := Write 0, 20 := Write 0)"
  by (simp add: stop_all_motors_def MOTORS_def stop_motor_def)

lemma stop_all_motors_stopped: "motors_stopped (stop_all_motors g)"
  by (simp add: motors_stopped_def MOTORS_def stop_all_motors_eq)

lemma stop_all_motors_stby: "stop_all_motors g 9 = g 9" "stop_all_motors g 11 = g 11"
  by (simp_all add: stop_all_motors_eq)

lemma enter_standby_eq: "enter_standby g = (stop_all_motors g)(9 := Write 0, 11 := Write 0)"
  by (simp add: enter_standby_def STBY_PINS_def)

lemma exit_standby_eq: "exit_standby g = g(9 := Write 1, 11 := Write 1)"
  by (simp add: exit_standby_def STBY_PINS_def)

lemma enter_standby_stopped: "motors_stopped (enter_standby g)"
  by (simp add: motors_stopped_def MOTORS_def enter_standby_eq stop_all_motors_eq)

lemma enter_standby_stby: "enter_standby g 9 = Write 0" "enter_standby g 11 = Write 0"
  by (simp_all add: enter_standby_eq)

lemma exit_standby_stby: "exit_standby g 9 = Write 1" "exit_standby g 11 = Write 1"
  by (simp_all add: exit_standby_eq)

lemma apply_motor_stby: "apply_motor n v g 9 = g 9" "apply_motor n v g 11 = g 11"
  by (cases n; simp add: apply_motor_def Let_def)+

lemma drive_mecanum_stby: "drive_mecanum a b c d g 9 = g 9" "drive_mecanum a b c d g 11 = g 11"
  by (simp_all add: drive_mecanum_def apply_motor_stby split: prod.split)

subsection \<open>Hit-disable lifecycle and safety stop\<close>

lemma on_laser_hit_gpio:
  "\<not> is_hit (laser_tag_state s) \<Longrightarrow>
   gpio (on_laser_hit t now s) = enter_standby (stop_all_motors (gpio s))"
  by (simp add: on_laser_hit_def)

lemma on_laser_hit_in_standby: "in_standby (on_laser_hit t now s) = in_standby s"
  by (simp add: on_laser_hit_def Let_def)

lemma timer_running:
  assumes "is_hit (laser_tag_state s)" and "now - hit_time (laser_tag_state s) < HIT_DISABLE_TIME"
  shows "update_laser_timer now s =
           s\<lparr>laser_tag_state := (laser_tag_state s)
               \<lparr>time_remaining := max 0 (HIT_DISABLE_TIME - (now - hit_time (laser_tag_state s)))\<rparr>\<rparr>"
  using assms by (simp add: update_laser_timer_def Let_def)

lemma timer_expired:
  assumes "is_hit (laser_tag_state s)" and "HIT_DISABLE_TIME \<le> now - hit_time (laser_tag_state s)"
  shows "update_laser_timer now s =
           s\<lparr>laser_tag_state := \<lparr>is_hit = False, hit_by_team = 0, hit_time = 0,
                                   time_remaining = 0, is_self_hit = False\<rparr>,
             gpio := exit_standby (gpio s), in_standby := False\<rparr>"
  using assms by (simp add: update_laser_timer_def Let_def)

lemma timer_idle: "\<not> is_hit (laser_tag_state s) \<Longrightarrow> update_laser_timer now s = s"
  by (simp add: update_laser_timer_def)

lemma motor_control_stop:
  "is_hit (laser_tag_state s) \<or> estop (state s) \<or> now - last_cmd_time s > COMMAND_TIMEOUT_S \<Longrightarrow>
   motor_control now s = s\<lparr>gpio := stop_all_motors (gpio s)\<rparr>"
  by (simp add: motor_control_def)

lemma ticks_while_disabled:
  assumes "is_hit (laser_tag_state s)" and "nows \<noteq> []"
    and "\<forall>n \<in> set nows. n - hit_time (laser_tag_state s) < HIT_DISABLE_TIME"
  shows "laser_tag_state (control_loop nows s) =
           (laser_tag_state s)\<lparr>time_remaining :=
              max 0 (HIT_DISABLE_TIME - (last nows - hit_time (laser_tag_state s)))\<rparr> \<and>
         motors_stopped (gpio (control_loop nows s))"
  using assms
proof (induction nows arbitrary: s)
  case Nil
  then show ?case by simp
next
  case (Cons n ns)
  let ?s' = "control_tick n s"
  from Cons.prems have u: "update_laser_timer n s =
      s\<lparr>laser_tag_state := (laser_tag_state s)
          \<lparr>time_remaining := max 0 (HIT_DISABLE_TIME - (n - hit_time (laser_tag_state s)))\<rparr>\<rparr>"
    by (intro timer_running) simp_all
  from Cons.prems have m: "?s' =
      (update_laser_timer n s)\<lparr>gpio := stop_all_motors (gpio (update_laser_timer n s))\<rparr>"
    unfolding control_tick_def by (intro motor_control_stop) (simp add: u)
  have l: "laser_tag_state ?s' = (laser_tag_state s)
      \<lparr>time_remaining := max 0 (HIT_DISABLE_TIME - (n - hit_time (laser_tag_state s)))\<rparr>"
    by (simp add: m) (simp add: u)
  have g: "motors_stopped (gpio ?s')"
    by (simp add: m stop_all_motors_stopped)
  show ?case
  proof (cases "ns = []")
    case True
    with l g show ?thesis by simp
  next
    case False
    from Cons.prems l have "is_hit (laser_tag_state ?s')"
      and "\<forall>k \<in> set ns. k - hit_time (laser_tag_state ?s') < HIT_DISABLE_TIME"
      by simp_all
    from Cons.IH [OF this(1) False this(2)] False l show ?thesis
      by simp
  qed
qed

lemma hit_then_command:
  "step (Datagram (Some idle_msg) (109 / 10)) (step (Bursts (frame_of 2) 1) (initial_robot 0)) =
   (initial_robot 0)\<lparr>last_cmd_time := 109 / 10,
      laser_tag_state := \<lparr>is_hit = True, hit_by_team = 2, hit_time = 1,
        time_remaining = HIT_DISABLE_TIME, is_self_hit = False\<rparr>,
      gpio := enter_standby (stop_all_motors (gpio (initial_robot 0)))\<rparr>"
  by (simp add: process_bursts_def decode_frame_2 on_laser_hit_def datagram_received_def
      clamp_def initial_robot_def)

text \<open>
  C6, as stated, fails when the disable time runs out while commands keep arriving but
  the last input is more than 10 s old. Start from the initial state at time 0 (last
  input at 0); the frame of team 2 arrives at 1 s, a command with no keys at 10.9 s.
  At the tick at 11 s the robot is hit and the elapsed time has reached
  \<open>HIT_DISABLE_TIME\<close>, yet it ends the tick in standby: not hit, \<open>in_standby\<close> set and both
  STBY pins low, because the power-save rule of the same iteration fires.
\<close>

theorem expiry_into_standby_counterexample:
  "is_hit (laser_tag_state
     (step (Datagram (Some idle_msg) (109 / 10)) (step (Bursts (frame_of 2) 1) (initial_robot 0)))) \<and>
   HIT_DISABLE_TIME \<le> 11 - hit_time (laser_tag_state
     (step (Datagram (Some idle_msg) (109 / 10)) (step (Bursts (frame_of 2) 1) (initial_robot 0)))) \<and>
   \<not> is_hit (laser_tag_state (step (Tick 11)
     (step (Datagram (Some idle_msg) (109 / 10)) (step (Bursts (frame_of 2) 1) (initial_robot 0))))) \<and>
   in_standby (step (Tick 11)
     (step (Datagram (Some idle_msg) (109 / 10)) (step (Bursts (frame_of 2) 1) (initial_robot 0)))) \<and>
   gpio (step (Tick 11)
     (step (Datagram (Some idle_msg) (109 / 10)) (step (Bursts (frame_of 2) 1) (initial_robot 0)))) 9
     = Write 0 \<and>
   gpio (step (Tick 11)
     (step (Datagram (Some idle_msg) (109 / 10)) (step (Bursts (frame_of 2) 1) (initial_robot 0)))) 11
     = Write 0"
  unfolding hit_then_command
  by (simp add: control_tick_def update_laser_timer_def motor_control_def HIT_DISABLE_TIME_def
      COMMAND_TIMEOUT_S_def POWER_SAVE_TIMEOUT_S_def enter_standby_stby)
     (simp add: initial_robot_def)

text \<open>
  C6 amended. A hit delivered to a robot that is not already hit sets the laser-tag state
  to hit, with the attacking team, the hit time and 10 s remaining, and leaves every motor
  channel stopped. On a later control tick, while less than \<open>HIT_DISABLE_TIME\<close> has
  elapsed since the hit time, the robot stays hit, the remaining time is recomputed as
  \<open>max(0, HIT_DISABLE_TIME - elapsed)\<close> from the clock, and the motors stay stopped; so it
  is after any run of ticks of \<open>control_loop\<close> that all come before the disable time
  has elapsed. On the first tick at which the elapsed time has reached
  \<open>HIT_DISABLE_TIME\<close>, the timer part of the tick resets the laser-tag state (\<open>is_hit\<close>
  cleared), clears \<open>in_standby\<close> and writes both STBY pins high; the rest of the same
  tick then applies the ordinary rules to this state, so the robot ends the tick not
  hit, in standby exactly when the power-save rule fires in that very tick (no estop,
  no command timeout, last input more than 10 s old), and otherwise with the STBY pins
  high and, when no safety stop applies either, with the motors driven from the cached
  command.
\<close>

theorem hit_disable_lifecycle:
  "(\<not> is_hit (laser_tag_state s) \<longrightarrow>
      laser_tag_state (on_laser_hit t now s) =
        \<lparr>is_hit = True, hit_by_team = t, hit_time = now, time_remaining = 10,
         is_self_hit = (t = team_id (state s))\<rparr> \<and>
      motors_stopped (gpio (on_laser_hit t now s))) \<and>
   (is_hit (laser_tag_state s) \<and> now - hit_time (laser_tag_state s) < HIT_DISABLE_TIME \<longrightarrow>
      laser_tag_state (control_tick now s) =
        (laser_tag_state s)\<lparr>time_remaining :=
           max 0 (HIT_DISABLE_TIME - (now - hit_time (laser_tag_state s)))\<rparr> \<and>
      motors_stopped (gpio (control_tick now s))) \<and>
   (is_hit (laser_tag_state s) \<and> nows \<noteq> [] \<and>
    (\<forall>n \<in> set nows. n - hit_time (laser_tag_state s) < HIT_DISABLE_TIME) \<longrightarrow>
      laser_tag_state (control_loop nows s) =
        (laser_tag_state s)\<lparr>time_remaining :=
           max 0 (HIT_DISABLE_TIME - (last nows - hit_time (laser_tag_state s)))\<rparr> \<and>
      motors_stopped (gpio (control_loop nows s))) \<and>
   (is_hit (laser_tag_state s) \<and> HIT_DISABLE_TIME \<le> now - hit_time (laser_tag_state s) \<longrightarrow>
      update_laser_timer now s =
        s\<lparr>laser_tag_state := \<lparr>is_hit = False, hit_by_team = 0, hit_time = 0,
                                time_remaining = 0, is_self_hit = False\<rparr>,
          gpio := exit_standby (gpio s), in_standby := False\<rparr> \<and>
      exit_standby (gpio s) 9 = Write 1 \<and> exit_standby (gpio s) 11 = Write 1 \<and>
      \<not> is_hit (laser_tag_state (control_tick now s)) \<and>
      in_standby (control_tick now s) =
        (\<not> estop (state s) \<and> \<not> now - last_cmd_time s > COMMAND_TIMEOUT_S \<and>
         now - last_input_time s > POWER_SAVE_TIMEOUT_S) \<and>
      (\<not> in_standby (control_tick now s) \<longrightarrow>
         gpio (control_tick now s) 9 = Write 1 \<and> gpio (control_tick now s) 11 = Write 1) \<and>
      (\<not> estop (state s) \<and> \<not> now - last_cmd_time s > COMMAND_TIMEOUT_S \<and>
       \<not> now - last_input_time s > POWER_SAVE_TIMEOUT_S \<longrightarrow>
         gpio (control_tick now s) =
           drive_mecanum (vx (state s)) (vy (state s)) (omega (state s)) (speed (state s))
             (exit_standby (gpio s))))"
proof (intro conjI impI)
  assume h: "\<not> is_hit (laser_tag_state s)"
  show "laser_tag_state (on_laser_hit t now s) =
        \<lparr>is_hit = True, hit_by_team = t, hit_time = now, time_remaining = 10,
         is_self_hit = (t = team_id (state s))\<rparr>"
    using hit_state [OF h] by (simp add: HIT_DISABLE_TIME_def)
  show "motors_stopped (gpio (on_laser_hit t now s))"
    by (simp add: on_laser_hit_gpio [OF h] enter_standby_stopped)
next
  assume a: "is_hit (laser_tag_state s) \<and> now - hit_time (laser_tag_state s) < HIT_DISABLE_TIME"
  then have u: "update_laser_timer now s =
           s\<lparr>laser_tag_state := (laser_tag_state s)
               \<lparr>time_remaining := max 0 (HIT_DISABLE_TIME - (now - hit_time (laser_tag_state s)))\<rparr>\<rparr>"
    by (simp add: timer_running)
  from a have m: "control_tick now s =
      (update_laser_timer now s)\<lparr>gpio := stop_all_motors (gpio (update_laser_timer now s))\<rparr>"
    unfolding control_tick_def by (intro motor_control_stop) (simp add: u)
  show "laser_tag_state (control_tick now s) =
        (laser_tag_state s)\<lparr>time_remaining :=
           max 0 (HIT_DISABLE_TIME - (now - hit_time (laser_tag_state s)))\<rparr>"
    by (simp add: m) (simp add: u)
  show "motors_stopped (gpio (control_tick now s))"
    by (simp add: m stop_all_motors_stopped)
next
  assume a: "is_hit (laser_tag_state s) \<and> nows \<noteq> [] \<and>
    (\<forall>n \<in> set nows. n - hit_time (laser_tag_state s) < HIT_DISABLE_TIME)"
  then have "laser_tag_state (control_loop nows s) =
        (laser_tag_state s)\<lparr>time_remaining :=
           max 0 (HIT_DISABLE_TIME - (last nows - hit_time (laser_tag_state s)))\<rparr> \<and>
      motors_stopped (gpio (control_loop nows s))"
    by (intro ticks_while_disabled) simp_all
  then show "laser_tag_state (control_loop nows s) =
        (laser_tag_state s)\<lparr>time_remaining :=
           max 0 (HIT_DISABLE_TIME - (last nows - hit_time (laser_tag_state s)))\<rparr>"
    and "motors_stopped (gpio (control_loop nows s))"
    by simp_all
next
  assume a: "is_hit (laser_tag_state s) \<and> HIT_DISABLE_TIME \<le> now - hit_time (laser_tag_state s)"
  then show u: "update_laser_timer now s =
        s\<lparr>laser_tag_state := \<lparr>is_hit = False, hit_by_team = 0, hit_time = 0,
                                time_remaining = 0, is_self_hit = False\<rparr>,
          gpio := exit_standby (gpio s), in_standby := False\<rparr>"
    by (simp add: timer_expired)
  show "exit_standby (gpio s) 9 = Write 1" "exit_standby (gpio s) 11 = Write 1"
    by (rule exit_standby_stby)+
  show "\<not> is_hit (laser_tag_state (control_tick now s))"
    by (simp add: control_tick_def u motor_control_def)
  show s: "in_standby (control_tick now s) =
        (\<not> estop (state s) \<and> \<not> now - last_cmd_time s > COMMAND_TIMEOUT_S \<and>
         now - last_input_time s > POWER_SAVE_TIMEOUT_S)"
    by (simp add: control_tick_def u motor_control_def)
  {
    assume "\<not> in_standby (control_tick now s)"
    then show "gpio (control_tick now s) 9 = Write 1" "gpio (control_tick now s) 11 = Write 1"
      unfolding s
      by (auto simp: control_tick_def u motor_control_def stop_all_motors_stby exit_standby_stby
          drive_mecanum_stby)
  }
  {
    assume "\<not> estop (state s) \<and> \<not> now - last_cmd_time s > COMMAND_TIMEOUT_S \<and>
       \<not> now - last_input_time s > POWER_SAVE_TIMEOUT_S"
    then show "gpio (control_tick now s) =
           drive_mecanum (vx (state s)) (vy (state s)) (omega (state s)) (speed (state s))
             (exit_standby (gpio s))"
      by (simp add: control_tick_def u motor_control_def)
  }
qed

lemma hit0_state:
  "laser_tag_state (on_laser_hit 2 0 (initial_robot 0)) =
     \<lparr>is_hit = True, hit_by_team = 2, hit_time = 0, time_remaining = 10, is_self_hit = False\<rparr>"
  using hit_state [OF initial_not_hit, of 2 0 0]
  by (simp add: HIT_DISABLE_TIME_def) (simp add: initial_robot_def)

lemma hit0_rest:
  "state (on_laser_hit 2 0 (initial_robot 0)) = state (initial_robot 0)"
  "last_cmd_time (on_laser_hit 2 0 (initial_robot 0)) = 0"
  "last_input_time (on_laser_hit 2 0 (initial_robot 0)) = 0"
  by (simp_all add: on_laser_hit_def Let_def initial_robot_def)

theorem hit_disable_lifecycle_witness:
  "\<not> is_hit (laser_tag_state (initial_robot 0)) \<and>
   laser_tag_state (on_laser_hit 2 0 (initial_robot 0)) =
     \<lparr>is_hit = True, hit_by_team = 2, hit_time = 0, time_remaining = 10, is_self_hit = False\<rparr> \<and>
   motors_stopped (gpio (on_laser_hit 2 0 (initial_robot 0))) \<and>
   laser_tag_state (control_tick 3 (on_laser_hit 2 0 (initial_robot 0))) =
     \<lparr>is_hit = True, hit_by_team = 2, hit_time = 0, time_remaining = 7, is_self_hit = False\<rparr> \<and>
   motors_stopped (gpio (control_tick 3 (on_laser_hit 2 0 (initial_robot 0)))) \<and>
   laser_tag_state (control_loop [3, 7] (on_laser_hit 2 0 (initial_robot 0))) =
     \<lparr>is_hit = True, hit_by_team = 2, hit_time = 0, time_remaining = 3, is_self_hit = False\<rparr> \<and>
   motors_stopped (gpio (control_loop [3, 7] (on_laser_hit 2 0 (initial_robot 0)))) \<and>
   \<not> is_hit (laser_tag_state (control_tick 10 (on_laser_hit 2 0 (initial_robot 0)))) \<and>
   \<not> in_standby (control_tick 10 (on_laser_hit 2 0 (initial_robot 0))) \<and>
   gpio (control_tick 10 (on_laser_hit 2 0 (initial_robot 0))) 9 = Write 1 \<and>
   gpio (control_tick 10 (on_laser_hit 2 0 (initial_robot 0))) 11 = Write 1 \<and>
   gpio (control_tick 10 ((on_laser_hit 2 0 (initial_robot 0))\<lparr>last_cmd_time := 19 / 2, last_input_time := 19 / 2\<rparr>)) =
     drive_mecanum 0 0 0 1 (exit_standby (gpio (on_laser_hit 2 0 (initial_robot 0))))"
proof -
  have 1: "laser_tag_state (on_laser_hit 2 0 (initial_robot 0)) =
     \<lparr>is_hit = True, hit_by_team = 2, hit_time = 0, time_remaining = 10, is_self_hit = False\<rparr> \<and>
     motors_stopped (gpio (on_laser_hit 2 0 (initial_robot 0)))"
    using hit_disable_lifecycle [of "initial_robot 0" 2 0 "[]"] initial_not_hit [of 0]
    by (simp add: initial_robot_def)
  have 2: "laser_tag_state (control_tick 3 (on_laser_hit 2 0 (initial_robot 0))) =
     \<lparr>is_hit = True, hit_by_team = 2, hit_time = 0, time_remaining = 7, is_self_hit = False\<rparr> \<and>
     motors_stopped (gpio (control_tick 3 (on_laser_hit 2 0 (initial_robot 0))))"
    using hit_disable_lifecycle [of "on_laser_hit 2 0 (initial_robot 0)" 2 3 "[3, 7]"]
    by (simp add: hit0_state HIT_DISABLE_TIME_def)
  have l: "laser_tag_state (control_loop [3, 7] (on_laser_hit 2 0 (initial_robot 0))) =
     \<lparr>is_hit = True, hit_by_team = 2, hit_time = 0, time_remaining = 3, is_self_hit = False\<rparr> \<and>
     motors_stopped (gpio (control_loop [3, 7] (on_laser_hit 2 0 (initial_robot 0))))"
  proof -
    have "is_hit (laser_tag_state (on_laser_hit 2 0 (initial_robot 0))) \<and> [3, 7] \<noteq> ([]::real list) \<and>
      (\<forall>n \<in> set [3, 7]. n - hit_time (laser_tag_state (on_laser_hit 2 0 (initial_robot 0)))
         < HIT_DISABLE_TIME)"
      by (simp add: hit0_state HIT_DISABLE_TIME_def)
    with hit_disable_lifecycle [of "on_laser_hit 2 0 (initial_robot 0)" 2 3 "[3, 7]"]
    have "laser_tag_state (control_loop [3, 7] (on_laser_hit 2 0 (initial_robot 0))) =
        (laser_tag_state (on_laser_hit 2 0 (initial_robot 0)))\<lparr>time_remaining :=
           max 0 (HIT_DISABLE_TIME -
             (last [3, 7] - hit_time (laser_tag_state (on_laser_hit 2 0 (initial_robot 0)))))\<rparr> \<and>
      motors_stopped (gpio (control_loop [3, 7] (on_laser_hit 2 0 (initial_robot 0))))"
      by blast
    then show ?thesis
      by (simp add: hit0_state HIT_DISABLE_TIME_def)
  qed
  have p: "is_hit (laser_tag_state (on_laser_hit 2 0 (initial_robot 0))) \<and>
      HIT_DISABLE_TIME \<le> 10 - hit_time (laser_tag_state (on_laser_hit 2 0 (initial_robot 0)))"
    by (simp add: hit0_state HIT_DISABLE_TIME_def)
  have q: "10 - last_cmd_time (on_laser_hit 2 0 (initial_robot 0)) > COMMAND_TIMEOUT_S"
    by (simp add: hit0_rest COMMAND_TIMEOUT_S_def)
  have r: "\<not> is_hit (laser_tag_state (control_tick 10 (on_laser_hit 2 0 (initial_robot 0)))) \<and>
     in_standby (control_tick 10 (on_laser_hit 2 0 (initial_robot 0))) =
       (\<not> estop (state (on_laser_hit 2 0 (initial_robot 0))) \<and>
        \<not> 10 - last_cmd_time (on_laser_hit 2 0 (initial_robot 0)) > COMMAND_TIMEOUT_S \<and>
        10 - last_input_time (on_laser_hit 2 0 (initial_robot 0)) > POWER_SAVE_TIMEOUT_S) \<and>
     (\<not> in_standby (control_tick 10 (on_laser_hit 2 0 (initial_robot 0))) \<longrightarrow>
        gpio (control_tick 10 (on_laser_hit 2 0 (initial_robot 0))) 9 = Write 1 \<and>
        gpio (control_tick 10 (on_laser_hit 2 0 (initial_robot 0))) 11 = Write 1)"
    using hit_disable_lifecycle [of "on_laser_hit 2 0 (initial_robot 0)" 2 10 "[]"] p by blast
  have 3: "\<not> is_hit (laser_tag_state (control_tick 10 (on_laser_hit 2 0 (initial_robot 0)))) \<and>
     \<not> in_standby (control_tick 10 (on_laser_hit 2 0 (initial_robot 0))) \<and>
     gpio (control_tick 10 (on_laser_hit 2 0 (initial_robot 0))) 9 = Write 1 \<and>
     gpio (control_tick 10 (on_laser_hit 2 0 (initial_robot 0))) 11 = Write 1"
    using r q by blast
  have f: "is_hit (laser_tag_state ((on_laser_hit 2 0 (initial_robot 0))\<lparr>last_cmd_time := 19 / 2, last_input_time := 19 / 2\<rparr>)) \<and>
      HIT_DISABLE_TIME \<le> 10 - hit_time (laser_tag_state ((on_laser_hit 2 0 (initial_robot 0))\<lparr>last_cmd_time := 19 / 2, last_input_time := 19 / 2\<rparr>))"
    "\<not> estop (state ((on_laser_hit 2 0 (initial_robot 0))\<lparr>last_cmd_time := 19 / 2, last_input_time := 19 / 2\<rparr>)) \<and>
     \<not> 10 - last_cmd_time ((on_laser_hit 2 0 (initial_robot 0))\<lparr>last_cmd_time := 19 / 2, last_input_time := 19 / 2\<rparr>) > COMMAND_TIMEOUT_S \<and>
     \<not> 10 - last_input_time ((on_laser_hit 2 0 (initial_robot 0))\<lparr>last_cmd_time := 19 / 2, last_input_time := 19 / 2\<rparr>) > POWER_SAVE_TIMEOUT_S"
    by (simp_all add: hit0_state hit0_rest HIT_DISABLE_TIME_def COMMAND_TIMEOUT_S_def
        POWER_SAVE_TIMEOUT_S_def initial_state)
  have "gpio (control_tick 10 ((on_laser_hit 2 0 (initial_robot 0))\<lparr>last_cmd_time := 19 / 2, last_input_time := 19 / 2\<rparr>)) =
      drive_mecanum (vx (state ((on_laser_hit 2 0 (initial_robot 0))\<lparr>last_cmd_time := 19 / 2, last_input_time := 19 / 2\<rparr>))) (vy (state ((on_laser_hit 2 0 (initial_robot 0))\<lparr>last_cmd_time := 19 / 2, last_input_time := 19 / 2\<rparr>))) (omega (state ((on_laser_hit 2 0 (initial_robot 0))\<lparr>last_cmd_time := 19 / 2, last_input_time := 19 / 2\<rparr>))) (speed (state ((on_laser_hit 2 0 (initial_robot 0))\<lparr>last_cmd_time := 19 / 2, last_input_time := 19 / 2\<rparr>)))
        (exit_standby (gpio ((on_laser_hit 2 0 (initial_robot 0))\<lparr>last_cmd_time := 19 / 2, last_input_time := 19 / 2\<rparr>)))"
    using hit_disable_lifecycle [of "(on_laser_hit 2 0 (initial_robot 0))\<lparr>last_cmd_time := 19 / 2, last_input_time := 19 / 2\<rparr>" 2 10 "[]"] f by blast
  then have 4: "gpio (control_tick 10 ((on_laser_hit 2 0 (initial_robot 0))\<lparr>last_cmd_time := 19 / 2, last_input_time := 19 / 2\<rparr>)) =
     drive_mecanum 0 0 0 1 (exit_standby (gpio (on_laser_hit 2 0 (initial_robot 0))))"
    by (simp add: hit0_rest initial_state)
  show ?thesis
    using initial_not_hit [of 0] 1 2 l 3 4 by blast
qed

lemma update_laser_timer_cmd:
  "state (update_laser_timer now s) = state s"
  "last_cmd_time (update_laser_timer now s) = last_cmd_time s"
  by (simp_all add: update_laser_timer_def Let_def)

text \<open>
  C9. On a control tick at which \<open>estop\<close> is set in the cached command, or more than
  \<open>COMMAND_TIMEOUT_S\<close> (0.8 s) has passed since the last command, every motor channel is
  stopped at the end of the tick, whatever the cached \<open>vx\<close>, \<open>vy\<close>, \<open>omega\<close> and \<open>speed\<close>
  are. The stop changes nothing but the motor pins: the motor-control part of the tick
  returns the state with \<open>stop_all_motors\<close> applied to the pins, which leaves the STBY pins
  as they were; on a robot that is not hit the whole tick does just that, so the standby
  latch and the laser-tag state are the same before and after.
\<close>

theorem safety_stop:
  assumes "estop (state s) \<or> now - last_cmd_time s > COMMAND_TIMEOUT_S"
  shows "motors_stopped (gpio (control_tick now s)) \<and>
         motor_control now s = s\<lparr>gpio := stop_all_motors (gpio s)\<rparr> \<and>
         stop_all_motors (gpio s) 9 = gpio s 9 \<and> stop_all_motors (gpio s) 11 = gpio s 11 \<and>
         control_tick now s =
           (update_laser_timer now s)\<lparr>gpio := stop_all_motors (gpio (update_laser_timer now s))\<rparr> \<and>
         (\<not> is_hit (laser_tag_state s) \<longrightarrow>
            control_tick now s = s\<lparr>gpio := stop_all_motors (gpio s)\<rparr> \<and>
            in_standby (control_tick now s) = in_standby s \<and>
            laser_tag_state (control_tick now s) = laser_tag_state s \<and>
            gpio (control_tick now s) 9 = gpio s 9 \<and> gpio (control_tick now s) 11 = gpio s 11)"
proof -
  have m: "motor_control now s = s\<lparr>gpio := stop_all_motors (gpio s)\<rparr>"
    using assms by (intro motor_control_stop) blast
  have c: "control_tick now s =
           (update_laser_timer now s)\<lparr>gpio := stop_all_motors (gpio (update_laser_timer now s))\<rparr>"
    unfolding control_tick_def
    using assms by (intro motor_control_stop) (simp add: update_laser_timer_cmd)
  have g: "motors_stopped (gpio (control_tick now s))"
    by (simp add: c stop_all_motors_stopped)
  have n: "\<not> is_hit (laser_tag_state s) \<longrightarrow>
            control_tick now s = s\<lparr>gpio := stop_all_motors (gpio s)\<rparr> \<and>
            in_standby (control_tick now s) = in_standby s \<and>
            laser_tag_state (control_tick now s) = laser_tag_state s \<and>
            gpio (control_tick now s) 9 = gpio s 9 \<and> gpio (control_tick now s) 11 = gpio s 11"
    by (simp add: c timer_idle stop_all_motors_stby)
  show ?thesis
    by (intro conjI) (rule g m stop_all_motors_stby c n)+
qed

theorem safety_stop_witness:
  "1 - last_cmd_time ((initial_robot 0)\<lparr>state := (state (initial_robot 0))\<lparr>vx := 1\<rparr>\<rparr>)
     > COMMAND_TIMEOUT_S \<and>
   vx (state ((initial_robot 0)\<lparr>state := (state (initial_robot 0))\<lparr>vx := 1\<rparr>\<rparr>)) = 1 \<and>
   motors_stopped
     (gpio (control_tick 1 ((initial_robot 0)\<lparr>state := (state (initial_robot 0))\<lparr>vx := 1\<rparr>\<rparr>))) \<and>
   \<not> in_standby (control_tick 1 ((initial_robot 0)\<lparr>state := (state (initial_robot 0))\<lparr>vx := 1\<rparr>\<rparr>)) \<and>
   gpio (control_tick 1 ((initial_robot 0)\<lparr>state := (state (initial_robot 0))\<lparr>vx := 1\<rparr>\<rparr>)) 9 = Write 1"
proof -
  have a: "estop (state ((initial_robot 0)\<lparr>state := (state (initial_robot 0))\<lparr>vx := 1\<rparr>\<rparr>)) \<or>
      1 - last_cmd_time ((initial_robot 0)\<lparr>state := (state (initial_robot 0))\<lparr>vx := 1\<rparr>\<rparr>)
        > COMMAND_TIMEOUT_S"
    by (simp add: initial_robot_def COMMAND_TIMEOUT_S_def)
  have i: "\<not> is_hit (laser_tag_state
      ((initial_robot 0)\<lparr>state := (state (initial_robot 0))\<lparr>vx := 1\<rparr>\<rparr>))"
    "\<not> in_standby ((initial_robot 0)\<lparr>state := (state (initial_robot 0))\<lparr>vx := 1\<rparr>\<rparr>)"
    "gpio ((initial_robot 0)\<lparr>state := (state (initial_robot 0))\<lparr>vx := 1\<rparr>\<rparr>) 9 = Write 1"
    "vx (state ((initial_robot 0)\<lparr>state := (state (initial_robot 0))\<lparr>vx := 1\<rparr>\<rparr>)) = 1"
    "1 - last_cmd_time ((initial_robot 0)\<lparr>state := (state (initial_robot 0))\<lparr>vx := 1\<rparr>\<rparr>)
        > COMMAND_TIMEOUT_S"
    by (simp_all add: initial_robot_def setup_io_def STBY_PINS_def MOTORS_def IR_TX_GPIO_def
        COMMAND_TIMEOUT_S_def)
  have r: "motors_stopped
     (gpio (control_tick 1 ((initial_robot 0)\<lparr>state := (state (initial_robot 0))\<lparr>vx := 1\<rparr>\<rparr>))) \<and>
     in_standby (control_tick 1 ((initial_robot 0)\<lparr>state := (state (initial_robot 0))\<lparr>vx := 1\<rparr>\<rparr>)) =
       in_standby ((initial_robot 0)\<lparr>state := (state (initial_robot 0))\<lparr>vx := 1\<rparr>\<rparr>) \<and>
     gpio (control_tick 1 ((initial_robot 0)\<lparr>state := (state (initial_robot 0))\<lparr>vx := 1\<rparr>\<rparr>)) 9 =
       gpio ((initial_robot 0)\<lparr>state := (state (initial_robot 0))\<lparr>vx := 1\<rparr>\<rparr>) 9"
    using safety_stop [OF a] i(1) by blast
  show ?thesis
    using r i by simp
qed

subsection \<open>De-energizing the motor driver on a hit\<close>

lemma standby_run:
  "step (Tick 11) (step (Datagram (Some idle_msg) (21 / 2)) (initial_robot 0)) =
   (initial_robot 0)\<lparr>last_cmd_time := 21 / 2, in_standby := True,
      gpio := enter_standby (gpio (initial_robot 0))\<rparr>"
  by (simp add: datagram_received_def control_tick_def update_laser_timer_def motor_control_def
      initial_robot_def clamp_def COMMAND_TIMEOUT_S_def POWER_SAVE_TIMEOUT_S_def)

lemma standby_hit_run:
  "step (Bursts (frame_of 2) 12)
     (step (Tick 11) (step (Datagram (Some idle_msg) (21 / 2)) (initial_robot 0))) =
   (initial_robot 0)\<lparr>last_cmd_time := 21 / 2, in_standby := True,
      laser_tag_state := \<lparr>is_hit = True, hit_by_team = 2, hit_time = 12,
        time_remaining = HIT_DISABLE_TIME, is_self_hit = False\<rparr>,
      gpio := enter_standby (stop_all_motors (enter_standby (gpio (initial_robot 0))))\<rparr>"
  unfolding standby_run
  by (simp add: process_bursts_def decode_frame_2 on_laser_hit_def) (simp add: initial_robot_def)

text \<open>
  C10, as stated, fails for a hit that arrives in standby. Start from the initial state at
  time 0; a command with no keys arrives at 10.5 s and the tick at 11 s enters standby
  (no input for more than 10 s). The frame of team 2 arrives at 12 s: the robot was not
  hit and now is, the STBY pins are low, and \<open>in_standby\<close> is still true, not false. At 13 s,
  one second into the disable time, a command that only asserts \<open>estop\<close> (all axes remain 0,
  below the deadband) arrives: both STBY pins are written high again while the robot is
  still hit.
\<close>

theorem standby_hit_counterexample:
  "\<not> is_hit (laser_tag_state
       (step (Tick 11) (step (Datagram (Some idle_msg) (21 / 2)) (initial_robot 0)))) \<and>
   is_hit (laser_tag_state (step (Bursts (frame_of 2) 12)
       (step (Tick 11) (step (Datagram (Some idle_msg) (21 / 2)) (initial_robot 0))))) \<and>
   in_standby (step (Bursts (frame_of 2) 12)
       (step (Tick 11) (step (Datagram (Some idle_msg) (21 / 2)) (initial_robot 0)))) \<and>
   gpio (step (Bursts (frame_of 2) 12)
       (step (Tick 11) (step (Datagram (Some idle_msg) (21 / 2)) (initial_robot 0)))) 9 = Write 0 \<and>
   gpio (step (Datagram (Some estop_msg) 13) (step (Bursts (frame_of 2) 12)
       (step (Tick 11) (step (Datagram (Some idle_msg) (21 / 2)) (initial_robot 0))))) 9 = Write 1 \<and>
   gpio (step (Datagram (Some estop_msg) 13) (step (Bursts (frame_of 2) 12)
       (step (Tick 11) (step (Datagram (Some idle_msg) (21 / 2)) (initial_robot 0))))) 11 = Write 1 \<and>
   laser_tag_state (step (Datagram (Some estop_msg) 13) (step (Bursts (frame_of 2) 12)
       (step (Tick 11) (step (Datagram (Some idle_msg) (21 / 2)) (initial_robot 0))))) =
     \<lparr>is_hit = True, hit_by_team = 2, hit_time = 12, time_remaining = 10, is_self_hit = False\<rparr> \<and>
   vx (state (step (Datagram (Some estop_msg) 13) (step (Bursts (frame_of 2) 12)
       (step (Tick 11) (step (Datagram (Some idle_msg) (21 / 2)) (initial_robot 0)))))) = 0 \<and>
   vy (state (step (Datagram (Some estop_msg) 13) (step (Bursts (frame_of 2) 12)
       (step (Tick 11) (step (Datagram (Some idle_msg) (21 / 2)) (initial_robot 0)))))) = 0 \<and>
   omega (state (step (Datagram (Some estop_msg) 13) (step (Bursts (frame_of 2) 12)
       (step (Tick 11) (step (Datagram (Some idle_msg) (21 / 2)) (initial_robot 0)))))) = 0"
  unfolding standby_hit_run
  unfolding standby_run
  by (simp add: datagram_received_def enter_standby_stby exit_standby_stby HIT_DISABLE_TIME_def)
     (simp add: initial_robot_def exit_standby_stby)

lemma send_team_id_gpio: "gpio (send_team_id t s) = gpio s"
  by (simp add: send_team_id_def send_ir_bit_def send_ir_burst_def upt_0_8 Let_def)

lemma tick_no_reenergize:
  assumes "\<not> (is_hit (laser_tag_state s) \<and> HIT_DISABLE_TIME \<le> now - hit_time (laser_tag_state s))"
    and "p = 9 \<or> p = 11" and "gpio s p \<noteq> Write 1"
  shows "gpio (control_tick now s) p \<noteq> Write 1"
  using assms
  by (auto simp: control_tick_def update_laser_timer_def motor_control_def Let_def
      stop_all_motors_stby enter_standby_stby drive_mecanum_stby)

lemma bursts_no_reenergize:
  assumes "p = 9 \<or> p = 11" and "gpio s p \<noteq> Write 1"
  shows "gpio (process_bursts bursts now s) p \<noteq> Write 1"
  using assms
  by (auto simp: process_bursts_def on_laser_hit_def enter_standby_stby split: option.split)

lemma datagram_no_reenergize:
  assumes "gpio (fst (datagram_received (Some msg) now s)) p \<noteq> gpio s p"
  shows "in_standby s \<and>
         (\<bar>get_default (msg_vx msg) (vx (state s))\<bar> > 5 / 100 \<or>
          \<bar>get_default (msg_vy msg) (vy (state s))\<bar> > 5 / 100 \<or>
          \<bar>get_default (msg_omega msg) (omega (state s))\<bar> > 5 / 100 \<or>
          get_default (msg_estop msg) False)"
  using assms
  by (auto simp: datagram_received_def Let_def split: option.splits if_splits)

text \<open>
  C10 amended. Every accepted hit (a hit on a robot that is not already hit) writes both
  STBY pins low and stops every motor channel in the same call of \<open>on_laser_hit\<close>, and
  leaves the \<open>in_standby\<close> flag as it was (false when the robot was driving). Afterwards
  a STBY pin that is not high becomes high in one step of the program (a tick, a
  datagram, a burst buffer or the fire thread) only if the step is a control tick at
  which the robot is hit and the disable time has elapsed, or a datagram that arrives
  while \<open>in_standby\<close> is set and carries an axis above the deadband 0.05 or asserts
  \<open>estop\<close>.
\<close>

theorem hit_deenergizes_driver:
  "(\<not> is_hit (laser_tag_state s) \<longrightarrow>
      gpio (on_laser_hit t now s) 9 = Write 0 \<and> gpio (on_laser_hit t now s) 11 = Write 0 \<and>
      motors_stopped (gpio (on_laser_hit t now s)) \<and>
      in_standby (on_laser_hit t now s) = in_standby s) \<and>
   ((p = 9 \<or> p = 11) \<and> gpio s p \<noteq> Write 1 \<and> gpio (step e s) p = Write 1 \<longrightarrow>
      (\<exists>now'. e = Tick now' \<and> is_hit (laser_tag_state s) \<and>
          HIT_DISABLE_TIME \<le> now' - hit_time (laser_tag_state s)) \<or>
      (\<exists>msg now'. e = Datagram (Some msg) now' \<and> in_standby s \<and>
         (\<bar>get_default (msg_vx msg) (vx (state s))\<bar> > 5 / 100 \<or>
          \<bar>get_default (msg_vy msg) (vy (state s))\<bar> > 5 / 100 \<or>
          \<bar>get_default (msg_omega msg) (omega (state s))\<bar> > 5 / 100 \<or>
          get_default (msg_estop msg) False)))"
proof (intro conjI impI)
  assume h: "\<not> is_hit (laser_tag_state s)"
  show "gpio (on_laser_hit t now s) 9 = Write 0" "gpio (on_laser_hit t now s) 11 = Write 0"
    by (simp_all add: on_laser_hit_gpio [OF h] enter_standby_stby)
  show "motors_stopped (gpio (on_laser_hit t now s))"
    by (simp add: on_laser_hit_gpio [OF h] enter_standby_stopped)
  show "in_standby (on_laser_hit t now s) = in_standby s"
    by (rule on_laser_hit_in_standby)
next
  assume a: "(p = 9 \<or> p = 11) \<and> gpio s p \<noteq> Write 1 \<and> gpio (step e s) p = Write 1"
  show "(\<exists>now'. e = Tick now' \<and> is_hit (laser_tag_state s) \<and>
          HIT_DISABLE_TIME \<le> now' - hit_time (laser_tag_state s)) \<or>
      (\<exists>msg now'. e = Datagram (Some msg) now' \<and> in_standby s \<and>
         (\<bar>get_default (msg_vx msg) (vx (state s))\<bar> > 5 / 100 \<or>
          \<bar>get_default (msg_vy msg) (vy (state s))\<bar> > 5 / 100 \<or>
          \<bar>get_default (msg_omega msg) (omega (state s))\<bar> > 5 / 100 \<or>
          get_default (msg_estop msg) False))"
  proof (cases e)
    case (Tick now')
    with a tick_no_reenergize [of s now' p] show ?thesis
      by auto
  next
    case (Datagram data now')
    show ?thesis
    proof (cases data)
      case None
      with a Datagram show ?thesis
        by (simp add: datagram_received_def)
    next
      case (Some msg)
      with a Datagram have "gpio (fst (datagram_received (Some msg) now' s)) p \<noteq> gpio s p"
        by auto
      from datagram_no_reenergize [OF this] Datagram Some show ?thesis
        by blast
    qed
  next
    case (Bursts bursts now')
    with a bursts_no_reenergize [of p s bursts now'] show ?thesis
      by auto
  next
    case FireThread
    with a show ?thesis
      by (simp add: send_team_id_gpio)
  qed
qed

lemma expiry_tick_stby:
  "gpio (on_laser_hit 2 0 (initial_robot 0)) 9 = Write 0"
  "gpio (control_tick 10 (on_laser_hit 2 0 (initial_robot 0))) 9 = Write 1"
proof -
  show "gpio (on_laser_hit 2 0 (initial_robot 0)) 9 = Write 0"
    by (simp add: on_laser_hit_gpio [OF initial_not_hit] enter_standby_stby)
  have "update_laser_timer 10 (on_laser_hit 2 0 (initial_robot 0)) =
      (on_laser_hit 2 0 (initial_robot 0))\<lparr>laser_tag_state :=
          \<lparr>is_hit = False, hit_by_team = 0, hit_time = 0, time_remaining = 0, is_self_hit = False\<rparr>,
        gpio := exit_standby (gpio (on_laser_hit 2 0 (initial_robot 0))), in_standby := False\<rparr>"
    by (intro timer_expired) (simp_all add: hit0_state HIT_DISABLE_TIME_def)
  then show "gpio (control_tick 10 (on_laser_hit 2 0 (initial_robot 0))) 9 = Write 1"
    by (simp add: control_tick_def motor_control_def hit0_rest COMMAND_TIMEOUT_S_def
        stop_all_motors_stby exit_standby_stby)
qed

theorem hit_deenergizes_driver_witness:
  "\<not> is_hit (laser_tag_state (initial_robot 0)) \<and>
   gpio (on_laser_hit 2 0 (initial_robot 0)) 9 = Write 0 \<and>
   gpio (on_laser_hit 2 0 (initial_robot 0)) 11 = Write 0 \<and>
   motors_stopped (gpio (on_laser_hit 2 0 (initial_robot 0))) \<and>
   \<not> in_standby (on_laser_hit 2 0 (initial_robot 0)) \<and>
   gpio (on_laser_hit 2 0 (initial_robot 0)) 9 \<noteq> Write 1 \<and>
   gpio (step (Tick 10) (on_laser_hit 2 0 (initial_robot 0))) 9 = Write 1 \<and>
   is_hit (laser_tag_state (on_laser_hit 2 0 (initial_robot 0))) \<and>
   HIT_DISABLE_TIME \<le> 10 - hit_time (laser_tag_state (on_laser_hit 2 0 (initial_robot 0)))"
proof -
  have n: "\<not> is_hit (laser_tag_state (initial_robot 0))"
    by (rule initial_not_hit)
  have 1: "gpio (on_laser_hit 2 0 (initial_robot 0)) 9 = Write 0 \<and>
      gpio (on_laser_hit 2 0 (initial_robot 0)) 11 = Write 0 \<and>
      motors_stopped (gpio (on_laser_hit 2 0 (initial_robot 0))) \<and>
      in_standby (on_laser_hit 2 0 (initial_robot 0)) = in_standby (initial_robot 0)"
    using hit_deenergizes_driver [of "initial_robot 0" 2 0 9 "Tick 10"] n by blast
  have p: "(9 = (9::nat) \<or> 9 = (11::nat)) \<and>
      gpio (on_laser_hit 2 0 (initial_robot 0)) 9 \<noteq> Write 1 \<and>
      gpio (step (Tick 10) (on_laser_hit 2 0 (initial_robot 0))) 9 = Write 1"
    by (simp add: expiry_tick_stby)
  have 2: "is_hit (laser_tag_state (on_laser_hit 2 0 (initial_robot 0))) \<and>
      HIT_DISABLE_TIME \<le> 10 - hit_time (laser_tag_state (on_laser_hit 2 0 (initial_robot 0)))"
    using hit_deenergizes_driver [of "on_laser_hit 2 0 (initial_robot 0)" 2 0 9 "Tick 10"] p
    by auto
  have s: "\<not> in_standby (initial_robot 0)"
    by (simp add: initial_robot_def)
  show ?thesis
    using n 1 p 2 s by simp
qed

end
